theory Spec2Isabelle
  imports Main
begin

section \<open>Data model (app\_file/models.py)\<close>

text \<open>
  Each Django model is a record of its columns; a foreign key is the primary key of the row
  it points to. The fields \<open>id\<close>, \<open>name\<close>, \<open>owner\<close> occur in several models and carry the
  model's initial as a prefix here. \<open>data\<close> is the \<open>BinaryField\<close>: a byte string, one
  \<open>char\<close> per byte.
\<close>

type_synonym bytes = "char list"

record StorageUser =
  su_id :: int
  su_display_name :: string
  su_contacts :: "int list"

record Directory =
  d_id :: int
  d_name :: string
  d_owner :: int
  d_parent :: "int option"

record File =
  f_id :: int
  f_name :: string
  f_owner :: int
  f_parent_directory :: int
  f_data :: bytes

record Share =
  s_id :: int
  s_issuer :: int
  s_subject :: int
  s_target_file :: "int option"
  s_target_directory :: "int option"
  s_can_write :: bool

text \<open>
  The database: one list of rows per table, and the future outputs of
  \<open>RNG.randint(1, 9007199254740992)\<close>, consumed from the head by \<open>_create_random_id\<close>.
\<close>

record db =
  StorageUser_objects :: "StorageUser list"
  Directory_objects :: "Directory list"
  File_objects :: "File list"
  Share_objects :: "Share list"
  RNG :: "int list"

section \<open>Exceptions and results (app\_file/views.py)\<close>

datatype error =
    ErrorBadRequest string
  | ErrorUnauthorized
  | ErrorAccessDenied
  | ErrorNotFound
  | ErrorTransferralRejected
  | ErrorDuplicateName
  | ErrorCyclicDirectoryTree
  | ErrorUnmovableDirectory
  | ErrorDirectoryNotEmpty
  | ErrorInvalidShareSubject
  | ErrorInvalidContact
  | ErrorQuotaExceeded
  | ObjectDoesNotExist
  | OtherException

text \<open>
  A computation either raises (\<open>Inl\<close>) or returns (\<open>Inr\<close>); the outer \<open>option\<close> is
  \<open>None\<close> when the Python does not return at all (a recursion or loop that never ends).
\<close>

type_synonym 'a result = "(error + 'a) option"

definition throw :: "error \<Rightarrow> 'a result" where
  "throw e = Some (Inl e)"

definition return :: "'a \<Rightarrow> 'a result" where
  "return x = Some (Inr x)"

definition bind :: "'a result \<Rightarrow> ('a \<Rightarrow> 'b result) \<Rightarrow> 'b result" where
  "bind m f = (case m of None \<Rightarrow> None | Some (Inl e) \<Rightarrow> Some (Inl e) | Some (Inr x) \<Rightarrow> f x)"

definition LIMIT_SINGLE_FILE_SIZE :: nat where
  "LIMIT_SINGLE_FILE_SIZE = 128 * 1024 * 1024"

definition LIMIT_USER_TOTAL_SIZE :: nat where
  "LIMIT_USER_TOTAL_SIZE = 1024 * 1024 * 1024"

definition STATUS_OK :: "string \<times> int" where
  "STATUS_OK = (''ok'', 200)"
definition STATUS_BAD_REQUEST :: "string \<times> int" where
  "STATUS_BAD_REQUEST = (''malformed_request'', 400)"
definition STATUS_UNAUTHORIZED :: "string \<times> int" where
  "STATUS_UNAUTHORIZED = (''unauthorized'', 401)"
definition STATUS_NOT_FOUND :: "string \<times> int" where
  "STATUS_NOT_FOUND = (''not_found'', 404)"
definition STATUS_PERMISSION_DENIED :: "string \<times> int" where
  "STATUS_PERMISSION_DENIED = (''permission_denied'', 403)"
definition STATUS_DUPLICATE_NAME :: "string \<times> int" where
  "STATUS_DUPLICATE_NAME = (''duplicate_name'', 409)"
definition STATUS_TRANSFERRAL_REJECTED :: "string \<times> int" where
  "STATUS_TRANSFERRAL_REJECTED = (''transferral_rejected'', 422)"
definition STATUS_CYCLIC_DIRECTORY_TREE :: "string \<times> int" where
  "STATUS_CYCLIC_DIRECTORY_TREE = (''cycle_detected'', 409)"
definition STATUS_UNMOVABLE_DIRECTORY :: "string \<times> int" where
  "STATUS_UNMOVABLE_DIRECTORY = (''unmovable_directory'', 422)"
definition STATUS_DIRECTORY_NOT_EMPTY :: "string \<times> int" where
  "STATUS_DIRECTORY_NOT_EMPTY = (''not_empty'', 422)"
definition STATUS_INVALID_SHARE_SUBJECT :: "string \<times> int" where
  "STATUS_INVALID_SHARE_SUBJECT = (''invalid_subject'', 422)"
definition STATUS_INVALID_CONTACT :: "string \<times> int" where
  "STATUS_INVALID_CONTACT = (''invalid_contact'', 422)"
definition STATUS_QUOTA_EXCEEDED :: "string \<times> int" where
  "STATUS_QUOTA_EXCEEDED = (''quota_exceeded'', 413)"
definition STAUTS_INTERNAL_ERROR :: "string \<times> int" where
  "STAUTS_INTERNAL_ERROR = (''internal_error'', 500)"

text \<open>
  \<open>AbstractView.handle\<close>: the status of the response. The \<open>except\<close> clauses are tried in
  the source's order; a call that does not return gives no response.
\<close>

fun status_of_error :: "error \<Rightarrow> string \<times> int" where
  "status_of_error (ErrorBadRequest msg) = STATUS_BAD_REQUEST"
| "status_of_error ErrorUnauthorized = STATUS_UNAUTHORIZED"
| "status_of_error ErrorAccessDenied = STATUS_PERMISSION_DENIED"
| "status_of_error ErrorDuplicateName = STATUS_DUPLICATE_NAME"
| "status_of_error ErrorTransferralRejected = STATUS_TRANSFERRAL_REJECTED"
| "status_of_error ErrorCyclicDirectoryTree = STATUS_CYCLIC_DIRECTORY_TREE"
| "status_of_error ErrorUnmovableDirectory = STATUS_UNMOVABLE_DIRECTORY"
| "status_of_error ErrorDirectoryNotEmpty = STATUS_DIRECTORY_NOT_EMPTY"
| "status_of_error ErrorInvalidShareSubject = STATUS_INVALID_SHARE_SUBJECT"
| "status_of_error ErrorInvalidContact = STATUS_INVALID_CONTACT"
| "status_of_error ErrorQuotaExceeded = STATUS_QUOTA_EXCEEDED"
| "status_of_error ErrorNotFound = STATUS_NOT_FOUND"
| "status_of_error ObjectDoesNotExist = STATUS_NOT_FOUND"
| "status_of_error OtherException = STAUTS_INTERNAL_ERROR"

definition handle :: "'a result \<Rightarrow> (string \<times> int) option" where
  "handle r = (case r of
       None \<Rightarrow> None
     | Some (Inl e) \<Rightarrow> Some (status_of_error e)
     | Some (Inr x) \<Rightarrow> Some STATUS_OK)"

section \<open>Queries\<close>

text \<open>
  The primary keys are \<open>BigAutoField\<close>s: 64-bit columns of the PostgreSQL database
  (settings.py). \<open>Model.objects.get(id=...)\<close> raises \<open>ObjectDoesNotExist\<close> when no row has
  the key; for a key outside the range of the column the query itself fails with a
  database error, which is none of the exceptions that \<open>handle\<close> names. Following a foreign
  key does the same query.
\<close>

definition in_bigint :: "int \<Rightarrow> bool" where
  "in_bigint k = (- (2 ^ 63) \<le> k \<and> k < 2 ^ 63)"

definition StorageUser_find :: "db \<Rightarrow> int \<Rightarrow> StorageUser option" where
  "StorageUser_find db k = find (\<lambda>u. su_id u = k) (StorageUser_objects db)"

definition Directory_find :: "db \<Rightarrow> int \<Rightarrow> Directory option" where
  "Directory_find db k = find (\<lambda>d. d_id d = k) (Directory_objects db)"

definition File_find :: "db \<Rightarrow> int \<Rightarrow> File option" where
  "File_find db k = find (\<lambda>f. f_id f = k) (File_objects db)"


definition objects_get :: "int \<Rightarrow> 'a option \<Rightarrow> 'a result" where
  "objects_get k r =
     (case r of
        Some x \<Rightarrow> return x
      | None \<Rightarrow> if in_bigint k then throw ObjectDoesNotExist else throw OtherException)"

text \<open>The reverse relations \<open>share_set\<close>, \<open>file_set\<close> and \<open>directory_set\<close>.\<close>

definition Directory_share_set :: "db \<Rightarrow> Directory \<Rightarrow> Share list" where
  "Directory_share_set db self =
     filter (\<lambda>s. s_target_directory s = Some (d_id self)) (Share_objects db)"

definition File_share_set :: "db \<Rightarrow> File \<Rightarrow> Share list" where
  "File_share_set db self =
     filter (\<lambda>s. s_target_file s = Some (f_id self)) (Share_objects db)"

definition file_set :: "db \<Rightarrow> Directory \<Rightarrow> File list" where
  "file_set db self = filter (\<lambda>f. f_parent_directory f = d_id self) (File_objects db)"

definition directory_set :: "db \<Rightarrow> Directory \<Rightarrow> Directory list" where
  "directory_set db self = filter (\<lambda>d. d_parent d = Some (d_id self)) (Directory_objects db)"

section \<open>Access control (the \<open>can_access\<close> methods)\<close>

definition StorageUser_can_access :: "StorageUser \<Rightarrow> int \<Rightarrow> bool \<Rightarrow> bool" where
  "StorageUser_can_access self user_id is_write = (\<not> is_write \<and> user_id = su_id self)"

text \<open>
  The loop over the shares of one subject, shared by \<open>Directory.can_access\<close> and
  \<open>File.can_access\<close>: \<open>True\<close> when an iteration returns \<open>True\<close>, \<open>False\<close> when the loop
  falls through.
\<close>

fun share_loop :: "Share list \<Rightarrow> bool \<Rightarrow> bool" where
  "share_loop [] is_write = False"
| "share_loop (share # rest) is_write =
     (if s_can_write share then True
      else if \<not> is_write then True
      else share_loop rest is_write)"

partial_function (option) Directory_can_access ::
  "db \<Rightarrow> Directory \<Rightarrow> int \<Rightarrow> bool \<Rightarrow> (error + bool) option" where
  "Directory_can_access db self user_id is_write =
     (if d_owner self = user_id then Some (Inr True)
      else if share_loop (filter (\<lambda>s. s_subject s = user_id) (Directory_share_set db self)) is_write
        then Some (Inr True)
      else (case d_parent self of
          None \<Rightarrow> Some (Inr False)
        | Some pid \<Rightarrow>
            (case Directory_find db pid of
               None \<Rightarrow> Some (Inl ObjectDoesNotExist)
             | Some parent \<Rightarrow> Directory_can_access db parent user_id is_write)))"

definition File_can_access :: "db \<Rightarrow> File \<Rightarrow> int \<Rightarrow> bool \<Rightarrow> bool result" where
  "File_can_access db self user_id is_write =
     (if f_owner self = user_id then return True
      else if share_loop (filter (\<lambda>s. s_subject s = user_id) (File_share_set db self)) is_write
        then return True
      else bind (objects_get (f_parent_directory self) (Directory_find db (f_parent_directory self)))
             (\<lambda>parent_directory. Directory_can_access db parent_directory user_id is_write))"

definition Share_can_access :: "Share \<Rightarrow> int \<Rightarrow> bool \<Rightarrow> bool" where
  "Share_can_access self user_id is_write =
     (if s_issuer self = user_id then True
      else if \<not> is_write \<and> s_subject self = user_id then True
      else False)"

text \<open>The four kinds of object that \<open>_verify_can_access\<close> is called with.\<close>

datatype entity =
    AUser StorageUser
  | AFile File
  | ADirectory Directory
  | AShare Share

fun can_access :: "db \<Rightarrow> entity \<Rightarrow> int \<Rightarrow> bool \<Rightarrow> bool result" where
  "can_access db (AUser u) user_id is_write = return (StorageUser_can_access u user_id is_write)"
| "can_access db (AFile f) user_id is_write = File_can_access db f user_id is_write"
| "can_access db (ADirectory d) user_id is_write = Directory_can_access db d user_id is_write"
| "can_access db (AShare s) user_id is_write = return (Share_can_access s user_id is_write)"

definition verify_can_access :: "db \<Rightarrow> int \<Rightarrow> entity option \<Rightarrow> bool \<Rightarrow> unit result" where
  "verify_can_access db user_id obj is_write =
     (case obj of
        None \<Rightarrow> return ()
      | Some e \<Rightarrow>
          bind (can_access db e user_id False) (\<lambda>r.
            if \<not> r then throw ErrorNotFound
            else if is_write then
              bind (can_access db e user_id True) (\<lambda>w.
                if \<not> w then throw ErrorAccessDenied else return ())
            else return ()))"

section \<open>Quota\<close>

text \<open>
  \<open>_verify_quota\<close>: the two SQL queries sum \<open>LENGTH(data)\<close> over the files of the owner, the
  second leaving out the row with the excluded id. An aggregate query always yields one row,
  so \<open>size_response\<close> is never \<open>None\<close>.
\<close>

definition verify_quota :: "db \<Rightarrow> int \<Rightarrow> nat \<Rightarrow> int option \<Rightarrow> unit result" where
  "verify_quota db user_id upload_size excluded_file_id =
     (let size =
        (case excluded_file_id of
           None \<Rightarrow>
             sum_list (map (\<lambda>f. length (f_data f))
               (filter (\<lambda>f. f_owner f = user_id) (File_objects db)))
         | Some x \<Rightarrow>
             sum_list (map (\<lambda>f. length (f_data f))
               (filter (\<lambda>f. f_owner f = user_id \<and> f_id f \<noteq> x) (File_objects db))))
      in if size + upload_size > LIMIT_USER_TOTAL_SIZE then throw ErrorQuotaExceeded
         else return ())"

text \<open>The bytes stored for a user: the sum the spec's invariant bounds.\<close>

definition total_size :: "db \<Rightarrow> int \<Rightarrow> nat" where
  "total_size db user_id =
     sum_list (map (\<lambda>f. length (f_data f)) (filter (\<lambda>f. f_owner f = user_id) (File_objects db)))"

section \<open>Saving rows\<close>

text \<open>
  The \<open>save\<close> methods: while the object has no id (\<open>not self.id\<close>, which also holds for the
  id 0), draw a candidate and keep it when no row has it. \<open>used\<close> are the primary keys of
  the table. \<open>None\<close>: the draws run out before the loop ends.
\<close>

fun save_id_loop :: "int list \<Rightarrow> int list \<Rightarrow> (int \<times> int list) option" where
  "save_id_loop used [] = None"
| "save_id_loop used (rnd_id # rng) =
     (if rnd_id \<notin> set used \<and> rnd_id \<noteq> 0 then Some (rnd_id, rng)
      else save_id_loop used rng)"

definition Directory_create :: "db \<Rightarrow> string \<Rightarrow> int \<Rightarrow> int option \<Rightarrow> (db \<times> Directory) result" where
  "Directory_create db name owner parent =
     (case save_id_loop (map d_id (Directory_objects db)) (RNG db) of
        None \<Rightarrow> None
      | Some (i, rng) \<Rightarrow>
          (let d = \<lparr>d_id = i, d_name = name, d_owner = owner, d_parent = parent\<rparr>
           in return (db\<lparr>Directory_objects := Directory_objects db @ [d], RNG := rng\<rparr>, d)))"

definition File_create :: "db \<Rightarrow> string \<Rightarrow> int \<Rightarrow> int \<Rightarrow> bytes \<Rightarrow> (db \<times> File) result" where
  "File_create db name owner parent_directory data =
     (case save_id_loop (map f_id (File_objects db)) (RNG db) of
        None \<Rightarrow> None
      | Some (i, rng) \<Rightarrow>
          (let f = \<lparr>f_id = i, f_name = name, f_owner = owner,
                    f_parent_directory = parent_directory, f_data = data\<rparr>
           in return (db\<lparr>File_objects := File_objects db @ [f], RNG := rng\<rparr>, f)))"

definition Share_create ::
  "db \<Rightarrow> int \<Rightarrow> int \<Rightarrow> int option \<Rightarrow> int option \<Rightarrow> bool \<Rightarrow> (db \<times> Share) result" where
  "Share_create db issuer subject target_file target_directory can_write =
     (case save_id_loop (map s_id (Share_objects db)) (RNG db) of
        None \<Rightarrow> None
      | Some (i, rng) \<Rightarrow>
          (let s = \<lparr>s_id = i, s_issuer = issuer, s_subject = subject, s_target_file = target_file,
                    s_target_directory = target_directory, s_can_write = can_write\<rparr>
           in return (db\<lparr>Share_objects := Share_objects db @ [s], RNG := rng\<rparr>, s)))"

text \<open>Saving an object that has its id: the row with that key is replaced (or inserted).\<close>

definition File_save :: "db \<Rightarrow> File \<Rightarrow> db" where
  "File_save db f =
     (if \<exists>g \<in> set (File_objects db). f_id g = f_id f
      then db\<lparr>File_objects := map (\<lambda>g. if f_id g = f_id f then f else g) (File_objects db)\<rparr>
      else db\<lparr>File_objects := File_objects db @ [f]\<rparr>)"

definition Directory_save :: "db \<Rightarrow> Directory \<Rightarrow> db" where
  "Directory_save db d =
     (if \<exists>g \<in> set (Directory_objects db). d_id g = d_id d
      then db\<lparr>Directory_objects := map (\<lambda>g. if d_id g = d_id d then d else g) (Directory_objects db)\<rparr>
      else db\<lparr>Directory_objects := Directory_objects db @ [d]\<rparr>)"

definition StorageUser_save :: "db \<Rightarrow> StorageUser \<Rightarrow> db" where
  "StorageUser_save db u =
     (if \<exists>g \<in> set (StorageUser_objects db). su_id g = su_id u
      then db\<lparr>StorageUser_objects := map (\<lambda>g. if su_id g = su_id u then u else g) (StorageUser_objects db)\<rparr>
      else db\<lparr>StorageUser_objects := StorageUser_objects db @ [u]\<rparr>)"

section \<open>Token validation\<close>

text \<open>
  A decoded token is a dictionary of claims. \<open>type(token[key])\<close> is compared with \<open>int\<close> or
  \<open>str\<close> exactly, so every other JSON value is one case.
\<close>

datatype claim = CInt int | CStr string | COther

datatype claim_type = TInt | TStr

fun type_of_claim :: "claim \<Rightarrow> claim_type option" where
  "type_of_claim (CInt i) = Some TInt"
| "type_of_claim (CStr s) = Some TStr"
| "type_of_claim COther = None"

type_synonym token = "string \<rightharpoonup> claim"

text \<open>
  What the service reads from outside, at the moment of the request: the clock, which
  \<open>int(time.time())\<close> and the token library read, and the part of \<open>jwt.decode\<close> that does
  not look at the clock, \<open>jwt_payload\<close>: the payload of a token whose signature verifies
  with the configured key and algorithm, \<open>None\<close> when the library raises.
\<close>

record env =
  jwt_payload :: "string \<Rightarrow> token option"
  now :: int

definition CLAIM_USER_ID :: string where "CLAIM_USER_ID = ''user_id''"
definition CLAIM_USER_NAME :: string where "CLAIM_USER_NAME = ''user_name''"
definition CLAIM_ISSUED_AT :: string where "CLAIM_ISSUED_AT = ''iat''"
definition CLAIM_EXPIRES_AT :: string where "CLAIM_EXPIRES_AT = ''exp''"
definition CLAIM_TOKEN_TYPE :: string where "CLAIM_TOKEN_TYPE = ''token_type''"
definition ACCESS_TOKEN_TYPE :: string where "ACCESS_TOKEN_TYPE = ''access''"

text \<open>
  \<open>jwt.decode\<close>: after the signature the library validates the expiry claim, and raises
  \<open>ExpiredSignatureError\<close> for an \<open>exp\<close> that is not after the clock. (An \<open>exp\<close> that is no
  integer is refused by the loop over the required claims below, whatever the library
  makes of it.)
\<close>

definition jwt_decode :: "env \<Rightarrow> string \<Rightarrow> token option" where
  "jwt_decode e t =
     (case jwt_payload e t of
        None \<Rightarrow> None
      | Some token \<Rightarrow>
          (case token CLAIM_EXPIRES_AT of
             Some (CInt exp) \<Rightarrow> if exp \<le> now e then None else Some token
           | _ \<Rightarrow> Some token))"

text \<open>
  The regular expression \<open>^Bearer ([^ ]+)$\<close> and the substitution by its group: the header
  is \<open>Bearer\<close>, one space, and a non-empty rest without a space; the rest is the token.
\<close>

definition bearer :: "string \<Rightarrow> string option" where
  "bearer t =
     (if take 7 t = ''Bearer '' \<and> drop 7 t \<noteq> [] \<and> CHR '' '' \<notin> set (drop 7 t)
      then Some (drop 7 t) else None)"

text \<open>The loop over the required claims: \<open>True\<close> when no iteration raises.\<close>

fun required_claims :: "(string \<times> claim_type) list \<Rightarrow> token \<Rightarrow> bool" where
  "required_claims [] token = True"
| "required_claims ((key, expected_type) # rest) token =
     (case token key of
        None \<Rightarrow> False
      | Some v \<Rightarrow>
          if Some expected_type \<noteq> type_of_claim v then False
          else required_claims rest token)"

text \<open>
  \<open>token[key]\<close> for a claim that the loop above has found to be an \<open>int\<close> (a \<open>str\<close>); the
  other cases are never read.
\<close>

definition int_claim :: "token \<Rightarrow> string \<Rightarrow> int" where
  "int_claim token key = (case token key of Some (CInt i) \<Rightarrow> i | _ \<Rightarrow> 0)"

definition str_claim :: "token \<Rightarrow> string \<Rightarrow> string" where
  "str_claim token key = (case token key of Some (CStr s) \<Rightarrow> s | _ \<Rightarrow> [])"

text \<open>
  \<open>_verify_authenticated\<close>. For a user id outside the 64-bit range neither the lookup
  nor the creation of the user succeeds; the handler for \<open>DatabaseError\<close> repeats the
  lookup, which fails again, so the error leaves the function.
\<close>

definition verify_authenticated ::
  "env \<Rightarrow> db \<Rightarrow> string option \<Rightarrow> int \<Rightarrow> (db \<times> StorageUser \<times> token) result" where
  "verify_authenticated e db authorization user_id =
     (case authorization of
        None \<Rightarrow> throw ErrorUnauthorized
      | Some header \<Rightarrow>
     (case bearer header of
        None \<Rightarrow> throw ErrorUnauthorized
      | Some t \<Rightarrow>
     (case jwt_decode e t of
        None \<Rightarrow> throw ErrorUnauthorized
      | Some token \<Rightarrow>
          if \<not> required_claims
               [(CLAIM_USER_ID, TInt), (CLAIM_USER_NAME, TStr), (CLAIM_ISSUED_AT, TInt),
                (CLAIM_EXPIRES_AT, TInt), (CLAIM_TOKEN_TYPE, TStr)] token
            then throw ErrorUnauthorized
          else if token CLAIM_USER_ID \<noteq> Some (CInt user_id) then throw ErrorUnauthorized
          else if now e > int_claim token CLAIM_EXPIRES_AT then throw ErrorUnauthorized
          else if now e < int_claim token CLAIM_ISSUED_AT then throw ErrorUnauthorized
          else if Some (CStr ACCESS_TOKEN_TYPE) \<noteq> token CLAIM_TOKEN_TYPE then throw ErrorUnauthorized
          else
            (case StorageUser_find db user_id of
               Some user \<Rightarrow> return (db, user, token)
             | None \<Rightarrow>
                 if \<not> in_bigint user_id then throw OtherException
                 else
                 (let user = \<lparr>su_id = user_id,
                              su_display_name = str_claim token CLAIM_USER_NAME,
                              su_contacts = []\<rparr>;
                      db1 = db\<lparr>StorageUser_objects := StorageUser_objects db @ [user]\<rparr>
                  in bind (Directory_create db1 ''root'' user_id None)
                       (\<lambda>(db2, root). return (db2, user, token)))))))"

section \<open>Structural checks\<close>

text \<open>
  \<open>_verify_same_owner\<close>, on the \<open>owner\<close> of each argument (users are compared by primary
  key).
\<close>

fun verify_same_owner :: "int list \<Rightarrow> unit result" where
  "verify_same_owner [] = return ()"
| "verify_same_owner [a] = return ()"
| "verify_same_owner (owner # rest) =
     (if \<exists>e \<in> set (owner # rest). e \<noteq> owner then throw ErrorTransferralRejected
      else return ())"

text \<open>
  \<open>_verify_unique_names\<close>: the argument is a name, or a file or directory (then an entry
  equal to it, that is of its model and with its primary key, is skipped).
\<close>

datatype to_check = Name string | TheFile File | TheDirectory Directory

fun verify_unique_names :: "db \<Rightarrow> to_check \<Rightarrow> Directory \<Rightarrow> unit result" where
  "verify_unique_names db (Name n) directory =
     (if (\<exists>e \<in> set (file_set db directory). f_name e = n)
        \<or> (\<exists>e \<in> set (directory_set db directory). d_name e = n)
      then throw ErrorDuplicateName else return ())"
| "verify_unique_names db (TheFile f) directory =
     (if (\<exists>e \<in> set (file_set db directory). f_id e \<noteq> f_id f \<and> f_name e = f_name f)
        \<or> (\<exists>e \<in> set (directory_set db directory). d_name e = f_name f)
      then throw ErrorDuplicateName else return ())"
| "verify_unique_names db (TheDirectory d) directory =
     (if (\<exists>e \<in> set (file_set db directory). f_name e = d_name d)
        \<or> (\<exists>e \<in> set (directory_set db directory). d_id e \<noteq> d_id d \<and> d_name e = d_name d)
      then throw ErrorDuplicateName else return ())"

text \<open>
  The loop of \<open>_verify_movable\<close>, walking from the target directory to the root; two
  directories are equal when their primary keys are.
\<close>

partial_function (option) movable_loop ::
  "db \<Rightarrow> Directory \<Rightarrow> Directory option \<Rightarrow> (error + unit) option" where
  "movable_loop db to_check target_dir =
     (case target_dir of
        None \<Rightarrow> Some (Inr ())
      | Some t \<Rightarrow>
          if d_id to_check = d_id t then Some (Inl ErrorCyclicDirectoryTree)
          else (case d_parent t of
              None \<Rightarrow> movable_loop db to_check None
            | Some pid \<Rightarrow>
                (case Directory_find db pid of
                   None \<Rightarrow> Some (Inl ObjectDoesNotExist)
                 | Some parent \<Rightarrow> movable_loop db to_check (Some parent))))"

definition verify_movable :: "db \<Rightarrow> Directory \<Rightarrow> Directory \<Rightarrow> unit result" where
  "verify_movable db to_check target_dir =
     (if d_parent to_check = None then throw ErrorUnmovableDirectory
      else movable_loop db to_check (Some target_dir))"

section \<open>Views\<close>

text \<open>
  \<open>AbstractView.handle\<close> around a handler that starts with \<open>_verify_authenticated\<close>: the
  status of the response and the database afterwards. The parameters of a handler are the
  converted values of its query parameters and keyword arguments (\<open>None\<close> for an optional
  one that is absent). A handler that raises has written nothing itself, but a user that
  \<open>_verify_authenticated\<close> created stays.
\<close>

definition authenticated ::
  "env \<Rightarrow> db \<Rightarrow> string option \<Rightarrow> int \<Rightarrow> (db \<Rightarrow> (db \<times> 'a) result) \<Rightarrow> ((string \<times> int) \<times> db) option" where
  "authenticated e db authorization user_id handler =
     (case verify_authenticated e db authorization user_id of
        None \<Rightarrow> None
      | Some (Inl err) \<Rightarrow> Some (status_of_error err, db)
      | Some (Inr (db1, user, token)) \<Rightarrow>
          (case handler db1 of
             None \<Rightarrow> None
           | Some (Inl err) \<Rightarrow> Some (status_of_error err, db1)
           | Some (Inr (db2, x)) \<Rightarrow> Some (STATUS_OK, db2)))"

text \<open>
  \<open>request.body\<close>: the framework reads the body on first use and, under the setting
  \<open>DATA_UPLOAD_MAX_MEMORY_SIZE\<close> of settings.py, raises \<open>RequestDataTooBig\<close> for a content
  length above it, which is none of the exceptions that \<open>handle\<close> names.
\<close>

definition DATA_UPLOAD_MAX_MEMORY_SIZE :: nat where
  "DATA_UPLOAD_MAX_MEMORY_SIZE = 128 * 1024 * 1024"

definition request_body :: "bytes \<Rightarrow> bytes result" where
  "request_body body =
     (if length body > DATA_UPLOAD_MAX_MEMORY_SIZE then throw OtherException else return body)"


definition FileView_handle_post ::
  "env \<Rightarrow> db \<Rightarrow> string option \<Rightarrow> int \<Rightarrow> string \<Rightarrow> int \<Rightarrow> bytes \<Rightarrow> ((string \<times> int) \<times> db) option" where
  "FileView_handle_post e db0 authorization user_id file_name parent_directory_id body =
     authenticated e db0 authorization user_id (\<lambda>db.
       bind (objects_get parent_directory_id (Directory_find db parent_directory_id)) (\<lambda>parent_directory.
       bind (verify_can_access db user_id (Some (ADirectory parent_directory)) True) (\<lambda>_.
       bind (verify_unique_names db (Name file_name) parent_directory) (\<lambda>_.
       bind (request_body body) (\<lambda>body.
         if length body > LIMIT_SINGLE_FILE_SIZE then throw ErrorQuotaExceeded
         else
           bind (verify_quota db user_id (length body) None) (\<lambda>_.
             File_create db file_name (d_owner parent_directory) (d_id parent_directory) body))))))"

text \<open>
  \<open>FileView._handle_put\<close>. With \<open>writebody\<close> the body is first read under
  \<open>if write_body\<close>; without it, by \<open>len(request.body) > 0\<close> at the start.
\<close>

definition FileView_handle_put ::
  "env \<Rightarrow> db \<Rightarrow> string option \<Rightarrow> int \<Rightarrow> string option \<Rightarrow> int option \<Rightarrow> bool \<Rightarrow> int \<Rightarrow> bytes
     \<Rightarrow> ((string \<times> int) \<times> db) option" where
  "FileView_handle_put e db0 authorization user_id file_name parent_directory_id write_body file_id body =
     authenticated e db0 authorization user_id (\<lambda>db.
       bind
         (if \<not> write_body then
            bind (request_body body) (\<lambda>body.
              if length body > 0
              then throw (ErrorBadRequest ''Cannot have a request body when not editing the file content'')
              else return ())
          else return ())
         (\<lambda>_.
       bind (objects_get file_id (File_find db file_id)) (\<lambda>file_obj.
       bind (verify_can_access db user_id (Some (AFile file_obj)) True) (\<lambda>_.
       bind
         (if file_name \<noteq> None \<or> parent_directory_id \<noteq> None then
            bind (objects_get (f_parent_directory file_obj)
                    (Directory_find db (f_parent_directory file_obj))) (\<lambda>current_dir.
            bind (verify_can_access db user_id (Some (ADirectory current_dir)) True) (\<lambda>_.
            bind
              (case parent_directory_id of
                 None \<Rightarrow> return (current_dir, file_obj)
               | Some pid \<Rightarrow>
                   bind (objects_get pid (Directory_find db pid)) (\<lambda>target_dir.
                   bind (verify_can_access db user_id (Some (ADirectory target_dir)) True) (\<lambda>_.
                   bind (verify_same_owner [f_owner file_obj, d_owner current_dir, d_owner target_dir]) (\<lambda>_.
                     return (target_dir,
                       if d_id current_dir \<noteq> d_id target_dir
                       then file_obj\<lparr>f_parent_directory := d_id target_dir\<rparr>
                       else file_obj)))))
              (\<lambda>(target_dir, file_obj).
                 (let file_obj = (case file_name of None \<Rightarrow> file_obj
                                   | Some n \<Rightarrow> file_obj\<lparr>f_name := n\<rparr>)
                  in bind (verify_unique_names db (TheFile file_obj) target_dir) (\<lambda>_.
                       return file_obj)))))
          else return file_obj)
         (\<lambda>file_obj.
       bind
         (if write_body then
            bind (request_body body) (\<lambda>body.
            bind (verify_quota db user_id (length body) (Some (f_id file_obj))) (\<lambda>_.
              return (file_obj\<lparr>f_data := body\<rparr>)))
          else return file_obj)
         (\<lambda>file_obj. return (File_save db file_obj, file_obj)))))))"







text \<open>
  \<open>DirectoryView._handle_put\<close>, in three parts: the block under
  \<open>if parent_directory_id is not None\<close> (the move), the block under
  \<open>if directory_name is not None or parent_directory_id is not None\<close> around it, and the
  handler. \<open>directory.parent\<close> of a root is \<open>None\<close>, which \<open>_verify_can_access\<close> lets pass;
  reading \<open>.owner\<close>, \<open>.file_set\<close> of \<open>None\<close> is an \<open>AttributeError\<close>.
\<close>

definition directory_reparent ::
  "db \<Rightarrow> int \<Rightarrow> Directory \<Rightarrow> Directory option \<Rightarrow> int \<Rightarrow> (Directory option \<times> Directory) result" where
  "directory_reparent db user_id directory current_dir pid =
     bind (objects_get pid (Directory_find db pid)) (\<lambda>target_dir.
     bind (verify_can_access db user_id (Some (ADirectory target_dir)) True) (\<lambda>_.
     bind (verify_movable db directory target_dir) (\<lambda>_.
     bind
       (case current_dir of
          None \<Rightarrow> throw OtherException
        | Some c \<Rightarrow> verify_same_owner [d_owner directory, d_owner c, d_owner target_dir])
       (\<lambda>_.
       return (Some target_dir,
         if map_option d_id current_dir \<noteq> Some (d_id target_dir)
         then directory\<lparr>d_parent := Some (d_id target_dir)\<rparr>
         else directory)))))"

definition directory_update ::
  "db \<Rightarrow> int \<Rightarrow> Directory \<Rightarrow> string option \<Rightarrow> int option \<Rightarrow> Directory result" where
  "directory_update db user_id directory directory_name parent_directory_id =
     (if directory_name \<noteq> None \<or> parent_directory_id \<noteq> None then
        bind
          (case d_parent directory of
             None \<Rightarrow> return None
           | Some p \<Rightarrow> bind (objects_get p (Directory_find db p)) (\<lambda>c. return (Some c)))
          (\<lambda>current_dir.
        bind (verify_can_access db user_id (map_option ADirectory current_dir) True) (\<lambda>_.
        bind
          (case parent_directory_id of
             None \<Rightarrow> return (current_dir, directory)
           | Some pid \<Rightarrow> directory_reparent db user_id directory current_dir pid)
          (\<lambda>(target_dir, directory).
             (let directory = (case directory_name of None \<Rightarrow> directory
                                | Some n \<Rightarrow> directory\<lparr>d_name := n\<rparr>)
              in bind
                   (case target_dir of
                      None \<Rightarrow> throw OtherException
                    | Some t \<Rightarrow> verify_unique_names db (TheDirectory directory) t)
                   (\<lambda>_. return directory)))))
      else return directory)"

definition DirectoryView_handle_put ::
  "env \<Rightarrow> db \<Rightarrow> string option \<Rightarrow> int \<Rightarrow> string option \<Rightarrow> int option \<Rightarrow> int
     \<Rightarrow> ((string \<times> int) \<times> db) option" where
  "DirectoryView_handle_put e db0 authorization user_id directory_name parent_directory_id directory_id =
     authenticated e db0 authorization user_id (\<lambda>db.
       bind (objects_get directory_id (Directory_find db directory_id)) (\<lambda>directory.
       bind (verify_can_access db user_id (Some (ADirectory directory)) True) (\<lambda>_.
       bind (directory_update db user_id directory directory_name parent_directory_id) (\<lambda>directory.
         return (Directory_save db directory, directory)))))"




datatype target_type = TargetFile | TargetDirectory

text \<open>The target of a new share: its entity, its owner and the two target columns.\<close>

definition share_target :: "db \<Rightarrow> target_type \<Rightarrow> int \<Rightarrow> (entity \<times> int \<times> int option \<times> int option) result" where
  "share_target db target_type target_id =
     (case target_type of
        TargetDirectory \<Rightarrow>
          bind (objects_get target_id (Directory_find db target_id)) (\<lambda>d.
            return (ADirectory d, d_owner d, None, Some (d_id d)))
      | TargetFile \<Rightarrow>
          bind (objects_get target_id (File_find db target_id)) (\<lambda>f.
            return (AFile f, f_owner f, Some (f_id f), None)))"

definition ShareView_handle_post ::
  "env \<Rightarrow> db \<Rightarrow> string option \<Rightarrow> int \<Rightarrow> int \<Rightarrow> target_type \<Rightarrow> int \<Rightarrow> bool
     \<Rightarrow> ((string \<times> int) \<times> db) option" where
  "ShareView_handle_post e db0 authorization user_id subject_id target_type target_id can_write =
     authenticated e db0 authorization user_id (\<lambda>db.
       bind (objects_get user_id (StorageUser_find db user_id)) (\<lambda>user.
       bind (objects_get subject_id (StorageUser_find db subject_id)) (\<lambda>subject.
       bind (share_target db target_type target_id) (\<lambda>(target, target_owner, target_file, target_directory).
       bind (verify_can_access db user_id (Some target) True) (\<lambda>_.
         if target_owner \<noteq> user_id then throw ErrorAccessDenied
         else if user_id = subject_id then throw ErrorInvalidShareSubject
         else Share_create db (su_id user) (su_id subject) target_file target_directory can_write)))))"






text \<open>
  \<open>ContactView._handle_delete\<close>. \<open>user.contacts.get(id=contact_id)\<close> raises
  \<open>ObjectDoesNotExist\<close> when the contact is not among the user's contacts.
\<close>

definition ContactView_handle_delete ::
  "env \<Rightarrow> db \<Rightarrow> string option \<Rightarrow> int \<Rightarrow> int \<Rightarrow> ((string \<times> int) \<times> db) option" where
  "ContactView_handle_delete e db0 authorization user_id contact_id =
     authenticated e db0 authorization user_id (\<lambda>db.
       bind (objects_get user_id (StorageUser_find db user_id)) (\<lambda>user.
       bind (objects_get contact_id (find (\<lambda>c. c = contact_id) (su_contacts user))) (\<lambda>_.
         (let user = user\<lparr>su_contacts := removeAll contact_id (su_contacts user)\<rparr>
          in return (StorageUser_save db user, ())))))"

section \<open>The directory tree\<close>

text \<open>
  \<open>below db D x\<close>: the directory \<open>x\<close> is \<open>D\<close> or lies under \<open>D\<close>, following parent links
  in the database.
\<close>

inductive below :: "db \<Rightarrow> Directory \<Rightarrow> Directory \<Rightarrow> bool" for db :: db and D :: Directory where
  same: "d_id x = d_id D \<Longrightarrow> below db D x"
| child: "d_parent x = Some pid \<Longrightarrow> Directory_find db pid = Some p \<Longrightarrow> below db D p
          \<Longrightarrow> below db D x"

code_pred below .

text \<open>The descendants of \<open>D\<close>: directories and files whose parent is \<open>D\<close> or below it.\<close>

definition descendant_directory :: "db \<Rightarrow> Directory \<Rightarrow> Directory \<Rightarrow> bool" where
  "descendant_directory db D x =
     (case d_parent x of
        None \<Rightarrow> False
      | Some pid \<Rightarrow> (case Directory_find db pid of None \<Rightarrow> False | Some p \<Rightarrow> below db D p))"

definition descendant_file :: "db \<Rightarrow> Directory \<Rightarrow> File \<Rightarrow> bool" where
  "descendant_file db D f =
     (case Directory_find db (f_parent_directory f) of None \<Rightarrow> False | Some p \<Rightarrow> below db D p)"

section \<open>The spec's notions\<close>

text \<open>
  After the spec (4.2): a share on this very directory with the user as subject grants the
  request when it is write-capable, or when the request is a read.
\<close>

definition share_grants :: "db \<Rightarrow> Directory \<Rightarrow> int \<Rightarrow> bool \<Rightarrow> bool" where
  "share_grants db d u is_write =
     (\<exists>s \<in> set (Share_objects db).
        s_target_directory s = Some (d_id d) \<and> s_subject s = u \<and> (s_can_write s \<or> \<not> is_write))"

text \<open>
  After the spec (4.4): the sum of the byte lengths of all files owned by the user, leaving
  out the file being overwritten if one is given.
\<close>

definition files_size :: "db \<Rightarrow> int \<Rightarrow> int option \<Rightarrow> nat" where
  "files_size db user_id overwritten =
     (\<Sum>f \<leftarrow> File_objects db.
        if f_owner f = user_id \<and> Some (f_id f) \<noteq> overwritten then length (f_data f) else 0)"

section \<open>The scenario of the spec (8)\<close>

text \<open>
  User 1 owns the root \<open>R\<close> and the directory \<open>docs\<close> under it, with \<open>sub\<close> under \<open>docs\<close> and
  the file \<open>a.txt\<close> (10 bytes) in \<open>sub\<close>. User 2 holds a write-capable share on \<open>docs\<close>,
  user 3 a read-only one. The tokens \<open>t1\<close>, \<open>t2\<close>, \<open>t3\<close> decode to access tokens of the
  users 1, 2, 3, valid from 900 to 1100.
\<close>

definition token_for :: "int \<Rightarrow> string \<Rightarrow> token" where
  "token_for uid name =
     [CLAIM_USER_ID \<mapsto> CInt uid, CLAIM_USER_NAME \<mapsto> CStr name, CLAIM_ISSUED_AT \<mapsto> CInt 900,
      CLAIM_EXPIRES_AT \<mapsto> CInt 1100, CLAIM_TOKEN_TYPE \<mapsto> CStr ACCESS_TOKEN_TYPE]"

definition scenario_env :: env where
  "scenario_env =
     \<lparr>jwt_payload = (\<lambda>t. if t = ''t1'' then Some (token_for 1 ''one'')
                        else if t = ''t2'' then Some (token_for 2 ''two'')
                        else if t = ''t3'' then Some (token_for 3 ''three'')
                        else None),
      now = 1000\<rparr>"

definition user1 :: StorageUser where
  "user1 = \<lparr>su_id = 1, su_display_name = ''one'', su_contacts = [2]\<rparr>"
definition user2 :: StorageUser where
  "user2 = \<lparr>su_id = 2, su_display_name = ''two'', su_contacts = []\<rparr>"
definition user3 :: StorageUser where
  "user3 = \<lparr>su_id = 3, su_display_name = ''three'', su_contacts = []\<rparr>"

definition R :: Directory where
  "R = \<lparr>d_id = 1, d_name = ''root'', d_owner = 1, d_parent = None\<rparr>"
definition docs :: Directory where
  "docs = \<lparr>d_id = 2, d_name = ''docs'', d_owner = 1, d_parent = Some 1\<rparr>"
definition sub :: Directory where
  "sub = \<lparr>d_id = 5, d_name = ''sub'', d_owner = 1, d_parent = Some 2\<rparr>"
definition root2 :: Directory where
  "root2 = \<lparr>d_id = 3, d_name = ''root'', d_owner = 2, d_parent = None\<rparr>"
definition root3 :: Directory where
  "root3 = \<lparr>d_id = 4, d_name = ''root'', d_owner = 3, d_parent = None\<rparr>"
definition a_txt :: File where
  "a_txt = \<lparr>f_id = 6, f_name = ''a.txt'', f_owner = 1, f_parent_directory = 5,
            f_data = ''0123456789''\<rparr>"
definition docs_share :: Share where
  "docs_share = \<lparr>s_id = 1, s_issuer = 1, s_subject = 2, s_target_file = None,
                  s_target_directory = Some 2, s_can_write = True\<rparr>"
definition docs_read_share :: Share where
  "docs_read_share = \<lparr>s_id = 2, s_issuer = 1, s_subject = 3, s_target_file = None,
                       s_target_directory = Some 2, s_can_write = False\<rparr>"

definition scenario_db :: db where
  "scenario_db =
     \<lparr>StorageUser_objects = [user1, user2, user3],
      Directory_objects = [R, docs, root2, root3, sub],
      File_objects = [a_txt],
      Share_objects = [docs_share, docs_read_share],
      RNG = [2, 0, 7, 8]\<rparr>"

text \<open>
  The same scenario with the quota of user 1 used up: eight files of 128 MiB in \<open>docs\<close>.
\<close>

definition big_file :: "int \<Rightarrow> string \<Rightarrow> File" where
  "big_file i n = \<lparr>f_id = i, f_name = n, f_owner = 1, f_parent_directory = 2,
                    f_data = replicate LIMIT_SINGLE_FILE_SIZE (CHR 0x00)\<rparr>"

definition full_db :: db where
  "full_db = scenario_db\<lparr>File_objects :=
     [big_file 11 ''b1'', big_file 12 ''b2'', big_file 13 ''b3'', big_file 14 ''b4'',
      big_file 15 ''b5'', big_file 16 ''b6'', big_file 17 ''b7'', big_file 18 ''b8'']\<rparr>"

text \<open>A request body one byte above the cap for a single file.\<close>

definition oversized_body :: bytes where
  "oversized_body = replicate 134217729 (CHR 0x00)"

section \<open>Results and statuses\<close>

lemmas status_defs =
  STATUS_OK_def STATUS_BAD_REQUEST_def STATUS_UNAUTHORIZED_def STATUS_NOT_FOUND_def
  STATUS_PERMISSION_DENIED_def STATUS_DUPLICATE_NAME_def STATUS_TRANSFERRAL_REJECTED_def
  STATUS_CYCLIC_DIRECTORY_TREE_def STATUS_UNMOVABLE_DIRECTORY_def
  STATUS_DIRECTORY_NOT_EMPTY_def STATUS_INVALID_SHARE_SUBJECT_def STATUS_INVALID_CONTACT_def
  STATUS_QUOTA_EXCEEDED_def STAUTS_INTERNAL_ERROR_def

lemmas claim_defs =
  CLAIM_USER_ID_def CLAIM_USER_NAME_def CLAIM_ISSUED_AT_def CLAIM_EXPIRES_AT_def
  CLAIM_TOKEN_TYPE_def ACCESS_TOKEN_TYPE_def

lemma bind_simps [simp]:
  "bind None f = None"
  "bind (Some (Inl e)) f = Some (Inl e)"
  "bind (Some (Inr x)) f = f x"
  "bind (throw e) f = throw e"
  "bind (return x) f = f x"
  by (simp_all add: bind_def throw_def return_def)

lemma result_distinct [simp]:
  "throw e \<noteq> return x" "return x \<noteq> throw e"
  "throw e \<noteq> None" "return x \<noteq> None" "None \<noteq> throw e" "None \<noteq> return x"
  "(throw e = throw e') = (e = e')" "(return x = return y) = (x = y)"
  "(throw e = Some (Inl e')) = (e = e')" "(return x = Some (Inr y)) = (x = y)"
  "(Some (Inl e') = throw e) = (e' = e)" "(Some (Inr y) = return x) = (y = x)"
  "throw e \<noteq> Some (Inr x)" "return x \<noteq> Some (Inl e)"
  "Some (Inr x) \<noteq> throw e" "Some (Inl e) \<noteq> return x"
  by (auto simp: throw_def return_def)

lemma share_loop_iff:
  "share_loop ss w \<longleftrightarrow> (\<exists>s \<in> set ss. s_can_write s \<or> \<not> w)"
  by (induction ss) auto

lemma share_loop_write_read: "share_loop ss True \<Longrightarrow> share_loop ss False"
  by (auto simp: share_loop_iff)

lemma Directory_write_read_aux:
  assumes "Directory_can_access db d u w = Some y"
  shows "w \<longrightarrow> y = Inr True \<longrightarrow> Directory_can_access db d u False = Some (Inr True)"
proof (rule Directory_can_access.raw_induct
    [where P = "\<lambda>db d u w y. w \<longrightarrow> y = Inr True \<longrightarrow> Directory_can_access db d u False = Some (Inr True)",
     OF _ assms])
  fix f db self user_id is_write y
  assume IH: "\<And>self user_id is_write b y. f self user_id is_write b = Some y \<Longrightarrow>
      b \<longrightarrow> y = Inr True \<longrightarrow> Directory_can_access self user_id is_write False = Some (Inr True)"
    and body: "(if d_owner self = user_id then Some (Inr True)
      else if share_loop (filter (\<lambda>s. s_subject s = user_id) (Directory_share_set db self)) is_write
        then Some (Inr True)
      else (case d_parent self of
          None \<Rightarrow> Some (Inr False)
        | Some pid \<Rightarrow>
            (case Directory_find db pid of
               None \<Rightarrow> Some (Inl ObjectDoesNotExist)
             | Some parent \<Rightarrow> f db parent user_id is_write))) = Some y"
  show "is_write \<longrightarrow> y = Inr True \<longrightarrow> Directory_can_access db self user_id False = Some (Inr True)"
    using body IH
    by (subst Directory_can_access.simps)
       (auto split: if_splits option.splits dest: share_loop_write_read)
qed

lemma Directory_write_read:
  "Directory_can_access db d u True = Some (Inr True) \<Longrightarrow>
   Directory_can_access db d u False = Some (Inr True)"
  using Directory_write_read_aux by blast

lemma File_write_read:
  "File_can_access db f u True = Some (Inr True) \<Longrightarrow>
   File_can_access db f u False = Some (Inr True)"
  by (auto simp: File_can_access_def objects_get_def split: if_splits option.splits
      dest: share_loop_write_read Directory_write_read)

lemma can_access_write_read:
  "can_access db x u True = Some (Inr True) \<Longrightarrow> can_access db x u False = Some (Inr True)"
  by (cases x)
     (auto simp: StorageUser_can_access_def Share_can_access_def return_def
       dest: File_write_read Directory_write_read split: if_splits)

lemmas scenario_defs =
  scenario_db_def user1_def user2_def user3_def R_def docs_def sub_def root2_def root3_def
  a_txt_def docs_share_def docs_read_share_def

lemma scenario_find [simp]:
  "Directory_find scenario_db 1 = Some R"
  "Directory_find scenario_db 2 = Some docs"
  "Directory_find scenario_db 5 = Some sub"
  "File_find scenario_db 6 = Some a_txt"
  "StorageUser_find scenario_db 1 = Some user1"
  "StorageUser_find scenario_db 2 = Some user2"
  "StorageUser_find scenario_db 3 = Some user3"
  by (simp_all add: Directory_find_def File_find_def StorageUser_find_def scenario_defs)


section \<open>Access control\<close>

lemma Directory_share_loop:
  "share_loop (filter (\<lambda>s. s_subject s = u) (Directory_share_set db d)) w = share_grants db d u w"
  by (auto simp: share_loop_iff Directory_share_set_def share_grants_def)

lemma Directory_can_access_unfold:
  "Directory_can_access db d u w =
     (if d_owner d = u \<or> share_grants db d u w then Some (Inr True)
      else (case d_parent d of
          None \<Rightarrow> Some (Inr False)
        | Some pid \<Rightarrow>
            (case Directory_find db pid of
               None \<Rightarrow> Some (Inl ObjectDoesNotExist)
             | Some p \<Rightarrow> Directory_can_access db p u w)))"
  by (subst Directory_can_access.simps) (simp add: Directory_share_loop)

lemma below_share_grants:
  "below db D x \<Longrightarrow> share_grants db D u True \<Longrightarrow> Directory_can_access db x u True = Some (Inr True)"
proof (induction rule: below.induct)
  case (same x)
  then have "share_grants db x u True"
    by (simp add: share_grants_def)
  then show ?case
    by (subst Directory_can_access_unfold) simp
next
  case (child x pid p)
  then show ?case
    by (subst Directory_can_access_unfold) simp
qed

lemma descendant_file_share_grants:
  "descendant_file db D f \<Longrightarrow> share_grants db D u True \<Longrightarrow> File_can_access db f u True = Some (Inr True)"
  by (auto simp: descendant_file_def File_can_access_def objects_get_def return_def
      split: option.splits dest: below_share_grants)

lemma scenario_below: "below scenario_db docs sub"
  by (rule below.child [where pid = 2 and p = docs]) (simp_all add: below.same sub_def)

lemma scenario_grants [simp]:
  "share_grants scenario_db docs 2 w"
  "share_grants scenario_db docs 3 w \<longleftrightarrow> \<not> w"
  "\<not> share_grants scenario_db sub u w"
  "\<not> share_grants scenario_db R u w"
  by (auto simp: share_grants_def scenario_defs)

lemma scenario_fields [simp]:
  "d_id R = 1" "d_owner R = 1" "d_parent R = None"
  "d_id docs = 2" "d_owner docs = 1" "d_parent docs = Some 1"
  "d_id sub = 5" "d_owner sub = 1" "d_parent sub = Some 2"
  "f_id a_txt = 6" "f_owner a_txt = 1" "f_parent_directory a_txt = 5" "length (f_data a_txt) = 10"
  "su_id user1 = 1" "su_id user2 = 2" "su_id user3 = 3"
  by (simp_all add: scenario_defs)

lemma scenario_access_R:
  "u \<noteq> 1 \<Longrightarrow> Directory_can_access scenario_db R u w = Some (Inr False)"
  by (subst Directory_can_access_unfold) simp

lemma scenario_access_docs:
  "Directory_can_access scenario_db docs 2 w = Some (Inr True)"
  "Directory_can_access scenario_db docs 3 w = Some (Inr (\<not> w))"
  by (subst Directory_can_access_unfold, simp add: scenario_access_R)+

lemma scenario_access_sub:
  "Directory_can_access scenario_db sub 2 w = Some (Inr True)"
  "Directory_can_access scenario_db sub 3 w = Some (Inr (\<not> w))"
  by (subst Directory_can_access_unfold, simp add: scenario_access_docs)+

text \<open>
  C2. The decision for a directory: the owner is granted read and write; otherwise a share
  on the directory with the user as subject grants both when it is write-capable and a read
  in any case; otherwise the decision is that of the parent, with the same write
  requirement; without a parent it is a denial. Hence a user with a write-capable share on
  \<open>D\<close> has write access to every directory and file below \<open>D\<close>.
\<close>

theorem directory_access_decision:
  "(d_owner d = u \<longrightarrow> Directory_can_access db d u w = Some (Inr True))
   \<and> (d_owner d \<noteq> u \<and> share_grants db d u w \<longrightarrow> Directory_can_access db d u w = Some (Inr True))
   \<and> (d_owner d \<noteq> u \<and> \<not> share_grants db d u w \<and> d_parent d = Some pid \<and> Directory_find db pid = Some p
        \<longrightarrow> Directory_can_access db d u w = Directory_can_access db p u w)
   \<and> (d_owner d \<noteq> u \<and> \<not> share_grants db d u w \<and> d_parent d = None
        \<longrightarrow> Directory_can_access db d u w = Some (Inr False))
   \<and> (share_grants db D U True \<and> (below db D x \<or> descendant_directory db D x)
        \<longrightarrow> can_access db (ADirectory x) U True = Some (Inr True))
   \<and> (share_grants db D U True \<and> descendant_file db D f
        \<longrightarrow> can_access db (AFile f) U True = Some (Inr True))"
proof -
  have "below db D x" if "descendant_directory db D x"
    using that by (auto simp: descendant_directory_def split: option.splits intro: below.child)
  then show ?thesis
    using below_share_grants [of db D x U] descendant_file_share_grants [of db D f U]
    by (auto simp: Directory_can_access_unfold [of db d u w])
qed

theorem directory_access_decision_witness:
  "Directory_can_access scenario_db R 1 True = Some (Inr True)
   \<and> Directory_can_access scenario_db docs 3 False = Some (Inr True)
   \<and> Directory_can_access scenario_db sub 3 True = Directory_can_access scenario_db docs 3 True
   \<and> Directory_can_access scenario_db R 2 True = Some (Inr False)
   \<and> descendant_directory scenario_db docs sub
   \<and> can_access scenario_db (ADirectory sub) 2 True = Some (Inr True)
   \<and> descendant_file scenario_db docs a_txt
   \<and> can_access scenario_db (AFile a_txt) 2 True = Some (Inr True)"
proof -
  have f: "descendant_file scenario_db docs a_txt"
    using scenario_below by (simp add: descendant_file_def)
  have s: "descendant_directory scenario_db docs sub"
    by (simp add: descendant_directory_def below.same)
  show ?thesis
    using directory_access_decision [of R 1 scenario_db True 2 docs docs 2 sub a_txt]
      directory_access_decision [of docs 3 scenario_db False 1 R docs 2 sub a_txt]
      directory_access_decision [of sub 3 scenario_db True 2 docs docs 2 sub a_txt]
      directory_access_decision [of R 2 scenario_db True 2 docs docs 2 sub a_txt]
      f s
    by simp
qed

text \<open>
  C10. Write access implies read access, for each kind of entity: a user profile is never
  granted for writing; for a directory, a file and a share, a granted write request is
  also granted as a read request.
\<close>

theorem write_access_implies_read_access:
  "\<not> StorageUser_can_access su u True
   \<and> (Directory_can_access db d u True = Some (Inr True)
        \<longrightarrow> Directory_can_access db d u False = Some (Inr True))
   \<and> (File_can_access db f u True = Some (Inr True)
        \<longrightarrow> File_can_access db f u False = Some (Inr True))
   \<and> (Share_can_access s u True \<longrightarrow> Share_can_access s u False)
   \<and> (can_access db x u True = Some (Inr True) \<longrightarrow> can_access db x u False = Some (Inr True))"
  using Directory_write_read [of db d u] File_write_read [of db f u] can_access_write_read [of db x u]
  by (simp add: StorageUser_can_access_def Share_can_access_def)

theorem write_access_implies_read_access_witness:
  "Directory_can_access scenario_db sub 2 True = Some (Inr True)
   \<and> Directory_can_access scenario_db sub 2 False = Some (Inr True)
   \<and> File_can_access scenario_db a_txt 2 True = Some (Inr True)
   \<and> File_can_access scenario_db a_txt 2 False = Some (Inr True)
   \<and> Share_can_access docs_share 1 True
   \<and> Share_can_access docs_share 1 False
   \<and> can_access scenario_db (AShare docs_share) 1 False = Some (Inr True)"
proof -
  have f: "File_can_access scenario_db a_txt 2 True = Some (Inr True)"
    by (simp add: File_can_access_def File_share_set_def objects_get_def scenario_access_sub)
  have s: "Share_can_access docs_share 1 True"
    by (simp add: Share_can_access_def docs_share_def)
  show ?thesis
    using write_access_implies_read_access [of user1 2 scenario_db sub a_txt docs_share "AShare docs_share"]
      write_access_implies_read_access [of user1 1 scenario_db sub a_txt docs_share "AShare docs_share"]
      f s
    by (simp add: scenario_access_sub return_def)
qed

lemma bind_eq_Inr:
  "bind m f = Some (Inr y) \<longleftrightarrow> (\<exists>x. m = Some (Inr x) \<and> f x = Some (Inr y))"
  by (auto simp: bind_def split: option.splits sum.splits)



section \<open>Quota\<close>

lemma sum_list_filter_if:
  "sum_list (map g (filter P xs)) = (\<Sum>x \<leftarrow> xs. if P x then g x else (0::nat))"
  by (induction xs) auto

lemma verify_quota_files_size:
  "verify_quota db u n ex =
     (if files_size db u ex + n > LIMIT_USER_TOTAL_SIZE then throw ErrorQuotaExceeded else return ())"
proof (cases ex)
  case None
  then show ?thesis
    by (simp add: verify_quota_def files_size_def sum_list_filter_if)
next
  case (Some x)
  have "(\<lambda>f. f_owner f = u \<and> f_id f \<noteq> x) = (\<lambda>f. f_owner f = u \<and> Some (f_id f) \<noteq> Some x)"
    by auto
  with Some show ?thesis
    by (simp add: verify_quota_def files_size_def sum_list_filter_if)
qed

text \<open>
  C5. \<open>_verify_quota\<close> sums the byte lengths of the files owned by the user, without the
  file being overwritten when one is given, and authorizes exactly when that sum plus the
  proposed bytes does not exceed the ceiling of 1 GiB: reaching the ceiling is authorized,
  one byte more is \<open>quota_exceeded\<close>.
\<close>

theorem verify_quota_authorizes_up_to_ceiling:
  "(verify_quota db u n ex = return ()
      \<longleftrightarrow> files_size db u ex + n \<le> LIMIT_USER_TOTAL_SIZE)
   \<and> (verify_quota db u n ex = throw ErrorQuotaExceeded
      \<longleftrightarrow> files_size db u ex + n > LIMIT_USER_TOTAL_SIZE)
   \<and> (files_size db u ex + n = LIMIT_USER_TOTAL_SIZE \<longrightarrow> verify_quota db u n ex = return ())
   \<and> (files_size db u ex + n = LIMIT_USER_TOTAL_SIZE + 1
        \<longrightarrow> handle (verify_quota db u n ex) = Some STATUS_QUOTA_EXCEEDED)
   \<and> LIMIT_USER_TOTAL_SIZE = 1073741824"
  by (simp add: verify_quota_files_size handle_def throw_def LIMIT_USER_TOTAL_SIZE_def)

theorem verify_quota_authorizes_up_to_ceiling_witness:
  "files_size scenario_db 1 None = 10
   \<and> files_size scenario_db 1 (Some 6) = 0
   \<and> verify_quota scenario_db 1 1073741814 None = return ()
   \<and> handle (verify_quota scenario_db 1 1073741815 None) = Some STATUS_QUOTA_EXCEEDED
   \<and> verify_quota scenario_db 1 1073741824 (Some 6) = return ()
   \<and> verify_quota scenario_db 1 1073741825 (Some 6) = throw ErrorQuotaExceeded"
proof -
  have s: "files_size scenario_db 1 None = 10" "files_size scenario_db 1 (Some 6) = 0"
    by (simp_all add: files_size_def scenario_db_def)
  have l: "LIMIT_USER_TOTAL_SIZE = 1073741824"
    by (simp add: LIMIT_USER_TOTAL_SIZE_def)
  have 1: "verify_quota scenario_db 1 1073741814 None = return ()"
    using verify_quota_authorizes_up_to_ceiling [of scenario_db 1 1073741814 None]
    by (simp only: s l handle_def throw_def return_def status_of_error.simps option.simps sum.simps)
  have 2: "handle (verify_quota scenario_db 1 1073741815 None) = Some STATUS_QUOTA_EXCEEDED"
    using verify_quota_authorizes_up_to_ceiling [of scenario_db 1 1073741815 None]
    by (simp only: s l handle_def throw_def return_def status_of_error.simps option.simps sum.simps)
  have 3: "verify_quota scenario_db 1 1073741824 (Some 6) = return ()"
    using verify_quota_authorizes_up_to_ceiling [of scenario_db 1 1073741824 "Some 6"]
    by (simp only: s l handle_def throw_def return_def status_of_error.simps option.simps sum.simps)
  have 4: "verify_quota scenario_db 1 1073741825 (Some 6) = throw ErrorQuotaExceeded"
    using verify_quota_authorizes_up_to_ceiling [of scenario_db 1 1073741825 "Some 6"]
    by (simp only: s l handle_def throw_def return_def status_of_error.simps option.simps sum.simps)
  from s 1 2 3 4 show ?thesis by simp
qed


section \<open>Token validation\<close>













section \<open>Views\<close>

lemma status_of_error_not_ok: "status_of_error err \<noteq> STATUS_OK"
  by (cases err) (simp_all add: status_defs)

lemma find_append_None:
  "find P xs = None \<Longrightarrow> find P (xs @ ys) = find P ys"
  by (induction xs) (auto split: if_splits)

lemma find_append_Some:
  "find P xs = Some x \<Longrightarrow> find P (xs @ ys) = Some x"
  by (induction xs) (auto split: if_splits)

lemma verify_authenticated_user:
  assumes "verify_authenticated e db a uid = Some (Inr (db', user, tok))"
  shows "StorageUser_find db' uid = Some user \<and> su_id user = uid"
proof (cases "StorageUser_find db uid")
  case None
  then have n: "find (\<lambda>u. su_id u = uid) (StorageUser_objects db) = None"
    by (simp add: StorageUser_find_def)
  from assms None show ?thesis
    by (auto simp: verify_authenticated_def throw_def return_def Let_def bind_eq_Inr
        Directory_create_def StorageUser_find_def find_append_None [OF n]
        split: option.splits if_splits)
next
  case (Some u)
  then have "su_id u = uid"
    by (auto simp: StorageUser_find_def find_Some_iff)
  with assms Some show ?thesis
    by (auto simp: verify_authenticated_def throw_def return_def split: option.splits if_splits)
qed

lemma authenticated_unfold:
  "verify_authenticated e db0 a uid = Some (Inr (db, user, tok)) \<Longrightarrow>
   authenticated e db0 a uid h =
     (case h db of
        None \<Rightarrow> None
      | Some (Inl err) \<Rightarrow> Some (status_of_error err, db)
      | Some (Inr (db2, x)) \<Rightarrow> Some (STATUS_OK, db2))"
  by (simp add: authenticated_def)

lemma scenario_authenticated:
  "StorageUser_find db 1 = Some u \<Longrightarrow>
   verify_authenticated scenario_env db (Some ''Bearer t1'') 1 = Some (Inr (db, u, token_for 1 ''one''))"
  "StorageUser_find db 2 = Some u \<Longrightarrow>
   verify_authenticated scenario_env db (Some ''Bearer t2'') 2 = Some (Inr (db, u, token_for 2 ''two''))"
  "StorageUser_find db 3 = Some u \<Longrightarrow>
   verify_authenticated scenario_env db (Some ''Bearer t3'') 3 = Some (Inr (db, u, token_for 3 ''three''))"
  by (simp_all add: verify_authenticated_def jwt_decode_def bearer_def scenario_env_def token_for_def
      claim_defs int_claim_def return_def)

lemma in_bigint_small [simp]:
  "in_bigint 1" "in_bigint 2" "in_bigint 3" "in_bigint 5" "in_bigint 6"
  by (simp_all add: in_bigint_def)

lemma objects_get_Some [simp]: "objects_get k (Some x) = return x"
  by (simp add: objects_get_def)

lemma StorageUser_find_save:
  assumes "StorageUser_find db (su_id u) = Some old"
  shows "StorageUser_find (StorageUser_save db u) k =
     (if k = su_id u then Some u else StorageUser_find db k)"
proof -
  have m: "find (\<lambda>x. su_id x = k) (map (\<lambda>g. if su_id g = i then u else g) xs) =
      (if k = i then (if \<exists>g \<in> set xs. su_id g = i then Some u else None)
       else find (\<lambda>x. su_id x = k) xs)" if "su_id u = i" for xs i
    using that by (induction xs) auto
  from assms have "\<exists>g \<in> set (StorageUser_objects db). su_id g = su_id u"
    by (auto simp: StorageUser_find_def find_Some_iff)
  then show ?thesis
    by (simp add: StorageUser_find_def StorageUser_save_def m)
qed

lemma find_member: "x \<in> set xs \<Longrightarrow> find (\<lambda>c. c = x) xs = Some x"
  by (induction xs) auto

lemma find_not_member: "x \<notin> set xs \<Longrightarrow> find (\<lambda>c. c = x) xs = None"
  by (induction xs) auto

text \<open>
  C9, as stated: removing a contact that the user does not have succeeds. It does not:
  user 1 has the contact 2 only, and removing 3 is \<open>not_found\<close>; removing 2 succeeds once,
  and the same request on the resulting database is \<open>not_found\<close>.
\<close>

theorem remove_contact_idempotent_counterexample:
  "ContactView_handle_delete scenario_env scenario_db (Some ''Bearer t1'') 1 3
     = Some (STATUS_NOT_FOUND, scenario_db)
   \<and> ContactView_handle_delete scenario_env scenario_db (Some ''Bearer t1'') 1 2
     = Some (STATUS_OK, scenario_db\<lparr>StorageUser_objects := [user1\<lparr>su_contacts := []\<rparr>, user2, user3]\<rparr>)
   \<and> ContactView_handle_delete scenario_env
         (scenario_db\<lparr>StorageUser_objects := [user1\<lparr>su_contacts := []\<rparr>, user2, user3]\<rparr>)
         (Some ''Bearer t1'') 1 2
     = Some (STATUS_NOT_FOUND,
             scenario_db\<lparr>StorageUser_objects := [user1\<lparr>su_contacts := []\<rparr>, user2, user3]\<rparr>)
   \<and> STATUS_NOT_FOUND \<noteq> STATUS_OK"
proof -
  let ?db = "scenario_db\<lparr>StorageUser_objects := [user1\<lparr>su_contacts := []\<rparr>, user2, user3]\<rparr>"
  have f: "StorageUser_find ?db 1 = Some (user1\<lparr>su_contacts := []\<rparr>)"
    by (simp add: StorageUser_find_def)
  have c: "su_contacts user1 = [2]"
    by (simp add: user1_def)
  have 1: "ContactView_handle_delete scenario_env scenario_db (Some ''Bearer t1'') 1 3
     = Some (STATUS_NOT_FOUND, scenario_db)"
    by (simp add: ContactView_handle_delete_def
        authenticated_unfold [OF scenario_authenticated(1) [OF scenario_find(5)]]
        objects_get_def c throw_def)
  have 2: "ContactView_handle_delete scenario_env scenario_db (Some ''Bearer t1'') 1 2
     = Some (STATUS_OK, ?db)"
    by (simp add: ContactView_handle_delete_def
        authenticated_unfold [OF scenario_authenticated(1) [OF scenario_find(5)]]
        objects_get_def c return_def StorageUser_save_def)
       (simp add: scenario_db_def)
  have 3: "ContactView_handle_delete scenario_env ?db (Some ''Bearer t1'') 1 2
     = Some (STATUS_NOT_FOUND, ?db)"
    by (simp add: ContactView_handle_delete_def
        authenticated_unfold [OF scenario_authenticated(1) [OF f]]
        objects_get_def f throw_def)
  from 1 2 3 show ?thesis
    by (simp add: status_defs)
qed

text \<open>
  C9, amended: for an authenticated user, removing a contact that the user has succeeds,
  and the user's stored contacts are then the former ones without it; removing a contact
  that the user does not have (also one already removed), with an id in the 64-bit range
  of the id column, fails with \<open>not_found\<close> and leaves the database as it is.
\<close>

theorem remove_contact_existing_only:
  assumes "verify_authenticated e db0 a uid = Some (Inr (db, user, tok))"
  shows "(cid \<in> set (su_contacts user) \<longrightarrow>
            (\<exists>db' u'. ContactView_handle_delete e db0 a uid cid = Some (STATUS_OK, db')
               \<and> StorageUser_find db' uid = Some u'
               \<and> cid \<notin> set (su_contacts u')
               \<and> su_contacts u' = removeAll cid (su_contacts user)
               \<and> Directory_objects db' = Directory_objects db
               \<and> File_objects db' = File_objects db
               \<and> Share_objects db' = Share_objects db))
       \<and> (cid \<notin> set (su_contacts user) \<and> in_bigint cid \<longrightarrow>
            ContactView_handle_delete e db0 a uid cid = Some (STATUS_NOT_FOUND, db))"
proof -
  let ?u = "user\<lparr>su_contacts := removeAll cid (su_contacts user)\<rparr>"
  have u: "StorageUser_find db uid = Some user" "su_id user = uid"
    using verify_authenticated_user [OF assms] by simp_all
  have f: "StorageUser_find (StorageUser_save db ?u) uid = Some ?u"
    using StorageUser_find_save [of db ?u user uid] u by simp
  have t: "Directory_objects (StorageUser_save db ?u) = Directory_objects db"
    "File_objects (StorageUser_save db ?u) = File_objects db"
    "Share_objects (StorageUser_save db ?u) = Share_objects db"
    by (simp_all add: StorageUser_save_def)
  have 1: "ContactView_handle_delete e db0 a uid cid = Some (STATUS_OK, StorageUser_save db ?u)"
    if "cid \<in> set (su_contacts user)"
    using that
    by (simp add: ContactView_handle_delete_def authenticated_unfold [OF assms] u
        return_def Let_def find_member)
  have 2: "ContactView_handle_delete e db0 a uid cid = Some (STATUS_NOT_FOUND, db)"
    if "cid \<notin> set (su_contacts user)" "in_bigint cid"
    using that
    by (simp add: ContactView_handle_delete_def authenticated_unfold [OF assms] u
        objects_get_def throw_def find_not_member)
  from 1 2 f t show ?thesis
    by auto
qed

theorem remove_contact_existing_only_witness:
  "(\<exists>db' u'. ContactView_handle_delete scenario_env scenario_db (Some ''Bearer t1'') 1 2
        = Some (STATUS_OK, db')
      \<and> StorageUser_find db' 1 = Some u' \<and> 2 \<notin> set (su_contacts u')
      \<and> su_contacts u' = [])
   \<and> ContactView_handle_delete scenario_env scenario_db (Some ''Bearer t1'') 1 3 =
     Some (STATUS_NOT_FOUND, scenario_db)"
  using remove_contact_existing_only [OF scenario_authenticated(1) [OF scenario_find(5)], of 2]
    remove_contact_existing_only [OF scenario_authenticated(1) [OF scenario_find(5)], of 3]
  by (auto simp: user1_def)

lemma share_target_owner:
  assumes "share_target db tt tid = Some (Inr (target, owner, tf, td))"
  shows "can_access db target owner w = Some (Inr True)"
  using assms
  by (cases tt)
     (auto simp: share_target_def objects_get_def bind_eq_Inr return_def throw_def
        File_can_access_def Directory_can_access_unfold split: option.splits)

lemma verify_can_access_write:
  "can_access db x u True = Some (Inr True) \<Longrightarrow> verify_can_access db u (Some x) True = return ()"
  using can_access_write_read [of db x u] by (simp add: verify_can_access_def)

lemma verify_can_access_cases:
  "verify_can_access db u x w = None \<or> verify_can_access db u x w = return ()
   \<or> (\<exists>err. verify_can_access db u x w = throw err)"
proof (cases "verify_can_access db u x w")
  case None
  then show ?thesis by simp
next
  case (Some r)
  then show ?thesis
    by (cases r) (auto simp: return_def throw_def)
qed

text \<open>
  C4, as stated: a share is created exactly when the issuer holds write access to the
  target. It is not: user 2 holds write access to \<open>docs\<close> through a write-capable share, and
  the request of user 2 to share \<open>docs\<close> with user 3 is answered \<open>permission_denied\<close>.
\<close>

theorem create_share_by_grantee_counterexample:
  "can_access scenario_db (ADirectory docs) 2 True = Some (Inr True)
   \<and> ShareView_handle_post scenario_env scenario_db (Some ''Bearer t2'') 2 3 TargetDirectory 2 True
       = Some (STATUS_PERMISSION_DENIED, scenario_db)
   \<and> STATUS_PERMISSION_DENIED \<noteq> STATUS_OK"
proof -
  have t: "share_target scenario_db TargetDirectory 2 = return (ADirectory docs, 1, None, Some 2)"
    by (simp add: share_target_def objects_get_def)
  have v: "verify_can_access scenario_db 2 (Some (ADirectory docs)) True = return ()"
    by (rule verify_can_access_write) (simp add: scenario_access_docs)
  show ?thesis
    by (simp add: ShareView_handle_post_def
        authenticated_unfold [OF scenario_authenticated(2) [OF scenario_find(6)]]
        objects_get_def t v scenario_access_docs throw_def status_defs)
qed

text \<open>
  C4, amended: for an authenticated issuer, an existing subject and an existing target, the
  share is created exactly when the issuer is the owner of the target and the subject is
  another user; the owner naming themself as subject gets \<open>invalid_subject\<close>; an issuer
  who is not the owner never succeeds, and gets \<open>permission_denied\<close> when holding write
  access to the target.
\<close>

theorem create_share_by_owner_only:
  assumes "verify_authenticated e db0 a uid = Some (Inr (db, user, tok))"
    and "StorageUser_find db sid = Some subject"
    and "share_target db tt tid = Some (Inr (target, owner, tf, td))"
  shows "(owner = uid \<and> sid = uid \<longrightarrow>
            ShareView_handle_post e db0 a uid sid tt tid cw = Some (STATUS_INVALID_SHARE_SUBJECT, db))
       \<and> (owner = uid \<and> sid \<noteq> uid
            \<and> save_id_loop (map s_id (Share_objects db)) (RNG db) = Some (i, rng) \<longrightarrow>
            ShareView_handle_post e db0 a uid sid tt tid cw =
              Some (STATUS_OK,
                    db\<lparr>Share_objects := Share_objects db @
                          [\<lparr>s_id = i, s_issuer = uid, s_subject = sid, s_target_file = tf,
                            s_target_directory = td, s_can_write = cw\<rparr>],
                       RNG := rng\<rparr>))
       \<and> (ShareView_handle_post e db0 a uid sid tt tid cw = Some (STATUS_OK, db')
            \<longrightarrow> owner = uid \<and> sid \<noteq> uid)
       \<and> (owner \<noteq> uid \<and> can_access db target uid True = Some (Inr True) \<longrightarrow>
            ShareView_handle_post e db0 a uid sid tt tid cw = Some (STATUS_PERMISSION_DENIED, db))"
proof -
  have u: "StorageUser_find db uid = Some user" "su_id user = uid"
    using verify_authenticated_user [OF assms(1)] by simp_all
  have s: "su_id subject = sid"
    using assms(2) by (auto simp: StorageUser_find_def find_Some_iff)
  have body: "ShareView_handle_post e db0 a uid sid tt tid cw =
     (case bind (verify_can_access db uid (Some target) True) (\<lambda>_.
             if owner \<noteq> uid then throw ErrorAccessDenied
             else if uid = sid then throw ErrorInvalidShareSubject
             else Share_create db uid sid tf td cw) of
        None \<Rightarrow> None
      | Some (Inl err) \<Rightarrow> Some (status_of_error err, db)
      | Some (Inr (db2, x)) \<Rightarrow> Some (STATUS_OK, db2))"
    by (simp add: ShareView_handle_post_def authenticated_unfold [OF assms(1)] u s assms(2,3)
        objects_get_def)
  have own: "verify_can_access db uid (Some target) True = return ()" if "owner = uid"
    using share_target_owner [OF assms(3), of True] that by (simp add: verify_can_access_write)
  have 1: "owner = uid \<and> sid = uid \<longrightarrow>
            ShareView_handle_post e db0 a uid sid tt tid cw = Some (STATUS_INVALID_SHARE_SUBJECT, db)"
    using body own by (auto simp: throw_def)
  have 2: "owner = uid \<and> sid \<noteq> uid
            \<and> save_id_loop (map s_id (Share_objects db)) (RNG db) = Some (i, rng) \<longrightarrow>
            ShareView_handle_post e db0 a uid sid tt tid cw =
              Some (STATUS_OK,
                    db\<lparr>Share_objects := Share_objects db @
                          [\<lparr>s_id = i, s_issuer = uid, s_subject = sid, s_target_file = tf,
                            s_target_directory = td, s_can_write = cw\<rparr>],
                       RNG := rng\<rparr>)"
    using body own by (auto simp: Share_create_def return_def Let_def)
  have 3: "ShareView_handle_post e db0 a uid sid tt tid cw = Some (STATUS_OK, db')
            \<longrightarrow> owner = uid \<and> sid \<noteq> uid"
    using verify_can_access_cases [of db uid "Some target" True] body
    by (auto simp: throw_def status_of_error_not_ok [unfolded STATUS_OK_def] status_defs split: if_splits)
  have 4: "owner \<noteq> uid \<and> can_access db target uid True = Some (Inr True) \<longrightarrow>
            ShareView_handle_post e db0 a uid sid tt tid cw = Some (STATUS_PERMISSION_DENIED, db)"
    using body by (auto simp: verify_can_access_write throw_def)
  from 1 2 3 4 show ?thesis by blast
qed

theorem create_share_by_owner_only_witness:
  "ShareView_handle_post scenario_env scenario_db (Some ''Bearer t1'') 1 1 TargetDirectory 2 True
     = Some (STATUS_INVALID_SHARE_SUBJECT, scenario_db)
   \<and> ShareView_handle_post scenario_env scenario_db (Some ''Bearer t1'') 1 3 TargetDirectory 2 True
     = Some (STATUS_OK,
             scenario_db\<lparr>Share_objects := Share_objects scenario_db @
                   [\<lparr>s_id = 7, s_issuer = 1, s_subject = 3, s_target_file = None,
                     s_target_directory = Some 2, s_can_write = True\<rparr>],
                RNG := [8]\<rparr>)
   \<and> ShareView_handle_post scenario_env scenario_db (Some ''Bearer t2'') 2 3 TargetDirectory 2 True
     = Some (STATUS_PERMISSION_DENIED, scenario_db)"
proof -
  have t: "share_target scenario_db TargetDirectory 2 = Some (Inr (ADirectory docs, 1, None, Some 2))"
    by (simp add: share_target_def objects_get_def return_def)
  have r: "save_id_loop (map s_id (Share_objects scenario_db)) (RNG scenario_db) = Some (7, [8])"
    by (simp add: scenario_defs)
  have 1: "ShareView_handle_post scenario_env scenario_db (Some ''Bearer t1'') 1 1 TargetDirectory 2 True
     = Some (STATUS_INVALID_SHARE_SUBJECT, scenario_db)"
    using create_share_by_owner_only
      [where i = 7 and rng = "[8]" and cw = True and db' = scenario_db,
       OF scenario_authenticated(1) [OF scenario_find(5)] scenario_find(5) t]
    by simp
  have 2: "ShareView_handle_post scenario_env scenario_db (Some ''Bearer t1'') 1 3 TargetDirectory 2 True
     = Some (STATUS_OK,
             scenario_db\<lparr>Share_objects := Share_objects scenario_db @
                   [\<lparr>s_id = 7, s_issuer = 1, s_subject = 3, s_target_file = None,
                     s_target_directory = Some 2, s_can_write = True\<rparr>],
                RNG := [8]\<rparr>)"
    using create_share_by_owner_only
      [where i = 7 and rng = "[8]" and cw = True and db' = scenario_db,
       OF scenario_authenticated(1) [OF scenario_find(5)] scenario_find(7) t]
    by (simp add: r)
  have 3: "ShareView_handle_post scenario_env scenario_db (Some ''Bearer t2'') 2 3 TargetDirectory 2 True
     = Some (STATUS_PERMISSION_DENIED, scenario_db)"
    using create_share_by_owner_only
      [where i = 7 and rng = "[8]" and cw = True and db' = scenario_db,
       OF scenario_authenticated(2) [OF scenario_find(6)] scenario_find(7) t]
    by (simp add: scenario_access_docs)
  from 1 2 3 show ?thesis by blast
qed


section \<open>Moving a directory\<close>

lemma movable_loop_below:
  "below db A T \<Longrightarrow> movable_loop db A (Some T) = Some (Inl ErrorCyclicDirectoryTree)"
proof (induction rule: below.induct)
  case (same x)
  then show ?case
    by (subst movable_loop.simps) simp
next
  case (child x pid p)
  then show ?case
    by (subst movable_loop.simps) simp
qed

lemma verify_movable_root:
  "d_parent A = None \<Longrightarrow> verify_movable db A T = throw ErrorUnmovableDirectory"
  by (simp add: verify_movable_def)

lemma verify_movable_below:
  "d_parent A \<noteq> None \<Longrightarrow> below db A T \<Longrightarrow> verify_movable db A T = throw ErrorCyclicDirectoryTree"
  by (simp add: verify_movable_def movable_loop_below throw_def)

lemma verify_same_owner_three:
  "verify_same_owner [oa, oc, ot] =
     (if oa = oc \<and> oa = ot then return () else throw ErrorTransferralRejected)"
  by auto

lemma verify_authenticated_tables:
  assumes "verify_authenticated e db0 a uid = Some (Inr (db, user, tok))"
  shows "File_objects db = File_objects db0 \<and> Share_objects db = Share_objects db0
     \<and> (\<exists>ds. Directory_objects db = Directory_objects db0 @ ds)"
  using assms
  by (auto simp: verify_authenticated_def throw_def return_def Let_def bind_eq_Inr
      Directory_create_def split: option.splits if_splits)

lemma Directory_find_save:
  assumes "Directory_find db (d_id d) = Some d0"
  shows "Directory_find (Directory_save db d) k =
     (if k = d_id d then Some d else Directory_find db k)"
proof -
  have m: "find (\<lambda>x. d_id x = k) (map (\<lambda>g. if d_id g = i then d else g) xs) =
      (if k = i then (if \<exists>g \<in> set xs. d_id g = i then Some d else None)
       else find (\<lambda>x. d_id x = k) xs)" if "d_id d = i" for xs i
    using that by (induction xs) auto
  from assms have "\<exists>g \<in> set (Directory_objects db). d_id g = d_id d"
    by (auto simp: Directory_find_def find_Some_iff)
  then show ?thesis
    by (simp add: Directory_find_def Directory_save_def m)
qed

lemma directory_reparent_keeps:
  "directory_reparent db u d c pid = Some (Inr (t, d')) \<Longrightarrow> d_id d' = d_id d \<and> d_owner d' = d_owner d"
  by (auto simp: directory_reparent_def bind_eq_Inr return_def split: if_splits)

lemma directory_update_keeps:
  assumes "directory_update db u d name pid = Some (Inr d')"
  shows "d_id d' = d_id d \<and> d_owner d' = d_owner d"
proof (cases "name \<noteq> None \<or> pid \<noteq> None")
  case False
  with assms show ?thesis
    by (simp add: directory_update_def return_def)
next
  case True
  with assms obtain c t d1 where
    m: "(case pid of None \<Rightarrow> return (c, d) | Some p \<Rightarrow> directory_reparent db u d c p) = Some (Inr (t, d1))"
    and n: "d' = (case name of None \<Rightarrow> d1 | Some n \<Rightarrow> d1\<lparr>d_name := n\<rparr>)"
    by (auto simp: directory_update_def bind_eq_Inr return_def Let_def)
  from m have "d_id d1 = d_id d \<and> d_owner d1 = d_owner d"
    by (cases pid) (auto simp: return_def dest: directory_reparent_keeps)
  with n show ?thesis
    by (cases name) auto
qed

lemma DirectoryView_handle_put_ownership:
  assumes "DirectoryView_handle_put e db0 a uid name pid did = Some (st, db')"
    and "Directory_find db0 k = Some d0"
  shows "File_objects db' = File_objects db0
     \<and> (\<exists>d'. Directory_find db' k = Some d' \<and> d_owner d' = d_owner d0)"
proof (cases "verify_authenticated e db0 a uid")
  case None
  with assms show ?thesis
    by (simp add: DirectoryView_handle_put_def authenticated_def)
next
  case (Some r)
  show ?thesis
  proof (cases r)
    case (Inl err)
    with Some assms show ?thesis
      by (auto simp: DirectoryView_handle_put_def authenticated_def)
  next
    case (Inr t)
    then obtain db user tok where au: "verify_authenticated e db0 a uid = Some (Inr (db, user, tok))"
      using Some by (cases t) auto
    from verify_authenticated_tables [OF au] obtain ds where
      tb: "File_objects db = File_objects db0" "Directory_objects db = Directory_objects db0 @ ds"
      by blast
    have k: "Directory_find db k = Some d0"
      using assms(2) tb(2) by (simp add: Directory_find_def find_append_Some)
    note h = assms(1) [unfolded DirectoryView_handle_put_def authenticated_unfold [OF au]]
    show ?thesis
    proof (cases "Directory_find db did")
      case None
      with h tb k show ?thesis
        by (cases "in_bigint did") (auto simp: objects_get_def throw_def)
    next
      case A: (Some A)
      show ?thesis
      proof (cases "verify_can_access db uid (Some (ADirectory A)) True = return ()")
        case False
        with h A tb k verify_can_access_cases [of db uid "Some (ADirectory A)" True] show ?thesis
          by (auto simp: objects_get_def return_def throw_def)
      next
        case True
        note h' = h [unfolded A objects_get_def option.case bind_simps True]
        have "db' = db \<or> (\<exists>x. db' = Directory_save db x \<and> d_id x = d_id A \<and> d_owner x = d_owner A)"
        proof (cases "directory_update db uid A name pid")
          case None
          with h' show ?thesis by simp
        next
          case (Some r)
          then show ?thesis
            using h' directory_update_keeps [of db uid A name pid]
            by (cases r) (auto simp: return_def)
        qed
        then consider (err) "db' = db"
          | (ok) x where "db' = Directory_save db x" "d_id x = d_id A" "d_owner x = d_owner A"
          by blast
        then show ?thesis
        proof cases
          case err
          with tb k show ?thesis by simp
        next
          case ok
          have i: "d_id A = did"
            using A by (auto simp: Directory_find_def find_Some_iff)
          have "Directory_find db (d_id x) = Some A"
            using A ok i by simp
          from Directory_find_save [OF this, of k] ok k A i tb show ?thesis
            by (auto simp: Directory_save_def)
        qed
      qed
    qed
  qed
qed

lemma bind_assoc: "bind (bind m f) g = bind m (\<lambda>x. bind (f x) g)"
  by (auto simp: bind_def split: option.splits sum.splits)

lemma DirectoryView_handle_put_move:
  assumes "verify_authenticated e db0 a uid = Some (Inr (db, user, tok))"
    and "Directory_find db did = Some A" and "Directory_find db tid = Some T"
    and "verify_can_access db uid (Some (ADirectory A)) True = return ()"
    and "verify_can_access db uid (Some (ADirectory T)) True = return ()"
    and "\<forall>p. d_parent A = Some p \<longrightarrow>
           Directory_find db p = Some C \<and> verify_can_access db uid (Some (ADirectory C)) True = return ()"
  shows "DirectoryView_handle_put e db0 a uid name (Some tid) did =
     (case bind (verify_movable db A T) (\<lambda>_.
             bind (if d_parent A = None then throw OtherException
                   else verify_same_owner [d_owner A, d_owner C, d_owner T]) (\<lambda>_.
             bind (verify_unique_names db
                     (TheDirectory
                        (case name of
                           None \<Rightarrow> if d_parent A \<noteq> Some (d_id T) then A\<lparr>d_parent := Some (d_id T)\<rparr> else A
                         | Some n \<Rightarrow> (if d_parent A \<noteq> Some (d_id T) then A\<lparr>d_parent := Some (d_id T)\<rparr> else A)
                                       \<lparr>d_name := n\<rparr>)) T) (\<lambda>_.
               return (Directory_save db
                         (case name of
                            None \<Rightarrow> if d_parent A \<noteq> Some (d_id T) then A\<lparr>d_parent := Some (d_id T)\<rparr> else A
                          | Some n \<Rightarrow> (if d_parent A \<noteq> Some (d_id T) then A\<lparr>d_parent := Some (d_id T)\<rparr> else A)
                                       \<lparr>d_name := n\<rparr>),
                       (case name of
                            None \<Rightarrow> if d_parent A \<noteq> Some (d_id T) then A\<lparr>d_parent := Some (d_id T)\<rparr> else A
                          | Some n \<Rightarrow> (if d_parent A \<noteq> Some (d_id T) then A\<lparr>d_parent := Some (d_id T)\<rparr> else A)
                                       \<lparr>d_name := n\<rparr>))))) of
        None \<Rightarrow> None
      | Some (Inl err) \<Rightarrow> Some (status_of_error err, db)
      | Some (Inr (db2, x)) \<Rightarrow> Some (STATUS_OK, db2))"
proof (cases "d_parent A")
  case None
  then show ?thesis
    using assms(2-5)
    by (simp add: DirectoryView_handle_put_def authenticated_unfold [OF assms(1)] objects_get_def
        directory_update_def directory_reparent_def verify_can_access_def [of db uid None]
        verify_movable_root throw_def
        del: verify_unique_names.simps verify_same_owner.simps)
next
  case (Some p)
  with assms(6) have c: "Directory_find db p = Some C"
    "verify_can_access db uid (Some (ADirectory C)) True = return ()"
    by simp_all
  then have i: "d_id C = p"
    by (auto simp: Directory_find_def find_Some_iff)
  show ?thesis
    using assms(2-5) Some c i
    by (simp add: DirectoryView_handle_put_def authenticated_unfold [OF assms(1)] objects_get_def
        directory_update_def directory_reparent_def Let_def bind_assoc
        del: verify_unique_names.simps verify_same_owner.simps)
qed

text \<open>
  C6. A move of a root fails with \<open>unmovable_directory\<close>; a move of another directory to
  itself or below itself fails with \<open>cycle_detected\<close>; a move that passes these checks
  while the directory, its parent and the target do not have one owner fails with
  \<open>transferral_rejected\<close>. This holds of \<open>_verify_movable\<close> and \<open>_verify_same_owner\<close>, and
  of the handler for a caller with write access to the directory, its parent and the
  target. Whatever the handler answers, every directory keeps its owner and the files are
  untouched.
\<close>

theorem directory_move_rejections:
  "(d_parent A = None \<longrightarrow> verify_movable db A T = throw ErrorUnmovableDirectory)
   \<and> (d_parent A \<noteq> None \<and> below db A T \<longrightarrow> verify_movable db A T = throw ErrorCyclicDirectoryTree)
   \<and> (\<not> (oa = oc \<and> oa = ot) \<longrightarrow> verify_same_owner [oa, oc, ot] = throw ErrorTransferralRejected)
   \<and> (verify_authenticated e dbi a uid = Some (Inr (db, user, tok))
       \<and> Directory_find db did = Some A \<and> Directory_find db tid = Some T
       \<and> verify_can_access db uid (Some (ADirectory A)) True = return ()
       \<and> verify_can_access db uid (Some (ADirectory T)) True = return ()
       \<and> (\<forall>p. d_parent A = Some p \<longrightarrow>
              Directory_find db p = Some C
              \<and> verify_can_access db uid (Some (ADirectory C)) True = return ())
      \<longrightarrow> (d_parent A = None \<longrightarrow>
             DirectoryView_handle_put e dbi a uid name (Some tid) did
               = Some (STATUS_UNMOVABLE_DIRECTORY, db))
        \<and> (d_parent A \<noteq> None \<and> below db A T \<longrightarrow>
             DirectoryView_handle_put e dbi a uid name (Some tid) did
               = Some (STATUS_CYCLIC_DIRECTORY_TREE, db))
        \<and> (d_parent A \<noteq> None \<and> verify_movable db A T = return ()
             \<and> \<not> (d_owner A = d_owner C \<and> d_owner A = d_owner T) \<longrightarrow>
             DirectoryView_handle_put e dbi a uid name (Some tid) did
               = Some (STATUS_TRANSFERRAL_REJECTED, db)))
   \<and> (DirectoryView_handle_put e dbi a uid name pid did = Some (st, db')
       \<and> Directory_find dbi k = Some d
      \<longrightarrow> File_objects db' = File_objects dbi
        \<and> (\<exists>d'. Directory_find db' k = Some d' \<and> d_owner d' = d_owner d))"
proof -
  have 1: "d_parent A = None \<longrightarrow> verify_movable db A T = throw ErrorUnmovableDirectory"
    by (simp add: verify_movable_root)
  have 2: "d_parent A \<noteq> None \<and> below db A T \<longrightarrow> verify_movable db A T = throw ErrorCyclicDirectoryTree"
    by (simp add: verify_movable_below)
  have 3: "\<not> (oa = oc \<and> oa = ot) \<longrightarrow> verify_same_owner [oa, oc, ot] = throw ErrorTransferralRejected"
    by (simp add: verify_same_owner_three)
  have 4: "(d_parent A = None \<longrightarrow>
             DirectoryView_handle_put e dbi a uid name (Some tid) did
               = Some (STATUS_UNMOVABLE_DIRECTORY, db))
        \<and> (d_parent A \<noteq> None \<and> below db A T \<longrightarrow>
             DirectoryView_handle_put e dbi a uid name (Some tid) did
               = Some (STATUS_CYCLIC_DIRECTORY_TREE, db))
        \<and> (d_parent A \<noteq> None \<and> verify_movable db A T = return ()
             \<and> \<not> (d_owner A = d_owner C \<and> d_owner A = d_owner T) \<longrightarrow>
             DirectoryView_handle_put e dbi a uid name (Some tid) did
               = Some (STATUS_TRANSFERRAL_REJECTED, db))"
    if "verify_authenticated e dbi a uid = Some (Inr (db, user, tok))"
      "Directory_find db did = Some A" "Directory_find db tid = Some T"
      "verify_can_access db uid (Some (ADirectory A)) True = return ()"
      "verify_can_access db uid (Some (ADirectory T)) True = return ()"
      "\<forall>p. d_parent A = Some p \<longrightarrow>
           Directory_find db p = Some C \<and> verify_can_access db uid (Some (ADirectory C)) True = return ()"
    unfolding DirectoryView_handle_put_move [OF that]
    by (auto simp: verify_movable_root verify_movable_below verify_same_owner_three throw_def
        simp del: verify_unique_names.simps verify_same_owner.simps)
  have 5: "DirectoryView_handle_put e dbi a uid name pid did = Some (st, db')
       \<and> Directory_find dbi k = Some d
      \<longrightarrow> File_objects db' = File_objects dbi
        \<and> (\<exists>d'. Directory_find db' k = Some d' \<and> d_owner d' = d_owner d)"
    using DirectoryView_handle_put_ownership [of e dbi a uid name pid did st db' k d] by blast
  from 1 2 3 4 5 show ?thesis by blast
qed

lemma scenario_root2 [simp]:
  "Directory_find scenario_db 3 = Some root2"
  "d_id root2 = 3" "d_owner root2 = 2" "d_parent root2 = None"
  by (simp_all add: Directory_find_def scenario_defs)

lemma scenario_owner_access:
  "verify_can_access scenario_db 1 (Some (ADirectory R)) True = return ()"
  "verify_can_access scenario_db 1 (Some (ADirectory docs)) True = return ()"
  "verify_can_access scenario_db 1 (Some (ADirectory sub)) True = return ()"
  "verify_can_access scenario_db 2 (Some (ADirectory root2)) True = return ()"
  by (rule verify_can_access_write, simp add: Directory_can_access_unfold)+

lemma scenario_grantee_access:
  "verify_can_access scenario_db 2 (Some (ADirectory docs)) True = return ()"
  "verify_can_access scenario_db 2 (Some (ADirectory sub)) True = return ()"
  by (rule verify_can_access_write, simp add: scenario_access_docs scenario_access_sub)+

lemma scenario_movable:
  "verify_movable scenario_db sub root2 = return ()"
  "verify_movable scenario_db sub R = return ()"
  by (simp_all add: verify_movable_def movable_loop.simps [of _ _ "Some x" for x]
      movable_loop.simps [of _ _ None] return_def)

lemma scenario_move_sub:
  "DirectoryView_handle_put scenario_env scenario_db (Some ''Bearer t1'') 1 None (Some 1) 5
     = Some (STATUS_OK, Directory_save scenario_db (sub\<lparr>d_parent := Some 1\<rparr>))"
proof -
  have u: "verify_unique_names scenario_db (TheDirectory (sub\<lparr>d_parent := Some 1\<rparr>)) R = return ()"
    by (simp add: file_set_def directory_set_def scenario_defs)
  show ?thesis
    by (simp add: DirectoryView_handle_put_move
        [OF scenario_authenticated(1) [OF scenario_find(5)] scenario_find(3) scenario_find(1)
          scenario_owner_access(3) scenario_owner_access(1), where C = docs]
        scenario_owner_access scenario_movable u return_def
        del: verify_unique_names.simps)
qed

theorem directory_move_rejections_witness:
  "verify_movable scenario_db R docs = throw ErrorUnmovableDirectory
   \<and> verify_movable scenario_db docs sub = throw ErrorCyclicDirectoryTree
   \<and> verify_same_owner [1, 1, 2] = throw ErrorTransferralRejected
   \<and> DirectoryView_handle_put scenario_env scenario_db (Some ''Bearer t1'') 1 None (Some 2) 1
       = Some (STATUS_UNMOVABLE_DIRECTORY, scenario_db)
   \<and> DirectoryView_handle_put scenario_env scenario_db (Some ''Bearer t1'') 1 None (Some 5) 2
       = Some (STATUS_CYCLIC_DIRECTORY_TREE, scenario_db)
   \<and> DirectoryView_handle_put scenario_env scenario_db (Some ''Bearer t2'') 2 None (Some 3) 5
       = Some (STATUS_TRANSFERRAL_REJECTED, scenario_db)
   \<and> (\<exists>d'. Directory_find (Directory_save scenario_db (sub\<lparr>d_parent := Some 1\<rparr>)) 5 = Some d'
          \<and> d_owner d' = 1)"
proof -
  note a1 = scenario_authenticated(1) [OF scenario_find(5)]
  note a2 = scenario_authenticated(2) [OF scenario_find(6)]
  have 1: "verify_movable scenario_db R docs = throw ErrorUnmovableDirectory
     \<and> DirectoryView_handle_put scenario_env scenario_db (Some ''Bearer t1'') 1 None (Some 2) 1
       = Some (STATUS_UNMOVABLE_DIRECTORY, scenario_db)"
    using directory_move_rejections
      [where A = R and T = docs and C = R and db = scenario_db and dbi = scenario_db
         and e = scenario_env and a = "Some ''Bearer t1''" and uid = 1 and user = user1
         and tok = "token_for 1 ''one''" and did = 1 and tid = 2 and name = None
         and oa = 1 and oc = 1 and ot = 2 and pid = "Some 2" and st = STATUS_UNMOVABLE_DIRECTORY
         and db' = scenario_db and k = 1 and d = R]
    by (simp add: a1 scenario_owner_access)
  have 2: "verify_movable scenario_db docs sub = throw ErrorCyclicDirectoryTree
     \<and> DirectoryView_handle_put scenario_env scenario_db (Some ''Bearer t1'') 1 None (Some 5) 2
       = Some (STATUS_CYCLIC_DIRECTORY_TREE, scenario_db)"
    using directory_move_rejections
      [where A = docs and T = sub and C = R and db = scenario_db and dbi = scenario_db
         and e = scenario_env and a = "Some ''Bearer t1''" and uid = 1 and user = user1
         and tok = "token_for 1 ''one''" and did = 2 and tid = 5 and name = None
         and oa = 1 and oc = 1 and ot = 2 and pid = "Some 5" and st = STATUS_CYCLIC_DIRECTORY_TREE
         and db' = scenario_db and k = 1 and d = R]
    by (simp add: a1 scenario_owner_access scenario_below)
  have 3: "verify_same_owner [1, 1, 2] = throw ErrorTransferralRejected
     \<and> DirectoryView_handle_put scenario_env scenario_db (Some ''Bearer t2'') 2 None (Some 3) 5
       = Some (STATUS_TRANSFERRAL_REJECTED, scenario_db)"
    using directory_move_rejections
      [where A = sub and T = root2 and C = docs and db = scenario_db and dbi = scenario_db
         and e = scenario_env and a = "Some ''Bearer t2''" and uid = 2 and user = user2
         and tok = "token_for 2 ''two''" and did = 5 and tid = 3 and name = None
         and oa = 1 and oc = 1 and ot = 2 and pid = "Some 3" and st = STATUS_TRANSFERRAL_REJECTED
         and db' = scenario_db and k = 1 and d = R]
    by (simp add: a2 scenario_owner_access scenario_grantee_access scenario_movable)
  have 4: "\<exists>d'. Directory_find (Directory_save scenario_db (sub\<lparr>d_parent := Some 1\<rparr>)) 5 = Some d'
          \<and> d_owner d' = 1"
    using directory_move_rejections
      [where A = sub and T = R and C = docs and db = scenario_db and dbi = scenario_db
         and e = scenario_env and a = "Some ''Bearer t1''" and uid = 1 and user = user1
         and tok = "token_for 1 ''one''" and did = 5 and tid = 1 and name = None
         and oa = 1 and oc = 1 and ot = 2 and pid = "Some 1" and st = STATUS_OK
         and db' = "Directory_save scenario_db (sub\<lparr>d_parent := Some 1\<rparr>)" and k = 5 and d = sub]
      scenario_move_sub
    by simp
  from 1 2 3 4 show ?thesis by blast
qed


section \<open>Access checks of the handlers\<close>



















section \<open>Writing files\<close>

lemma full_db_tables [simp]:
  "StorageUser_objects full_db = StorageUser_objects scenario_db"
  "Directory_objects full_db = Directory_objects scenario_db"
  "Share_objects full_db = Share_objects scenario_db"
  "RNG full_db = [2, 0, 7, 8]"
  by (simp_all add: full_db_def scenario_db_def)

lemma full_db_find [simp]:
  "Directory_find full_db k = Directory_find scenario_db k"
  "StorageUser_find full_db k = StorageUser_find scenario_db k"
  by (simp_all add: Directory_find_def StorageUser_find_def)

lemma big_file_fields [simp]:
  "f_id (big_file i n) = i" "f_name (big_file i n) = n" "f_owner (big_file i n) = 1"
  "f_parent_directory (big_file i n) = 2"
  "length (f_data (big_file i n)) = LIMIT_SINGLE_FILE_SIZE"
  by (simp_all add: big_file_def)

lemma full_db_total: "total_size full_db 1 = LIMIT_USER_TOTAL_SIZE"
  by (simp add: total_size_def full_db_def)
     (simp add: LIMIT_SINGLE_FILE_SIZE_def LIMIT_USER_TOTAL_SIZE_def)

lemma full_db_access: "verify_can_access full_db 2 (Some (ADirectory docs)) True = return ()"
  by (rule verify_can_access_write)
     (simp add: Directory_can_access_unfold share_grants_def, simp add: scenario_defs)

lemma full_db_names: "verify_unique_names full_db (Name ''a.txt'') docs = return ()"
  by (simp add: file_set_def directory_set_def full_db_def)
     (simp add: scenario_defs)

lemma full_db_quota: "verify_quota full_db 2 (length ''0123456789'') None = return ()"
  by (simp add: verify_quota_def full_db_def LIMIT_USER_TOTAL_SIZE_def)

text \<open>
  C1, on the code: user 1 owns exactly 1 GiB, the ceiling. User 2, with the write-capable
  share on \<open>docs\<close>, uploads 10 bytes into \<open>docs\<close>. The quota of user 2 is checked, the file is
  created for user 1, and user 1 then owns 10 bytes more than the ceiling.
\<close>

theorem upload_by_grantee_exceeds_owner_quota:
  "total_size full_db 1 = LIMIT_USER_TOTAL_SIZE
   \<and> FileView_handle_post scenario_env full_db (Some ''Bearer t2'') 2 ''a.txt'' 2 ''0123456789''
       = Some (STATUS_OK,
               full_db\<lparr>File_objects := File_objects full_db @
                          [\<lparr>f_id = 2, f_name = ''a.txt'', f_owner = 1, f_parent_directory = 2,
                            f_data = ''0123456789''\<rparr>],
                        RNG := [0, 7, 8]\<rparr>)
   \<and> total_size
         (full_db\<lparr>File_objects := File_objects full_db @
                          [\<lparr>f_id = 2, f_name = ''a.txt'', f_owner = 1, f_parent_directory = 2,
                            f_data = ''0123456789''\<rparr>],
                        RNG := [0, 7, 8]\<rparr>) 1
       = LIMIT_USER_TOTAL_SIZE + 10"
proof -
  have u: "StorageUser_find full_db 2 = Some user2"
    by simp
  have c: "File_create full_db ''a.txt'' 1 2 ''0123456789'' =
      return (full_db\<lparr>File_objects := File_objects full_db @
                          [\<lparr>f_id = 2, f_name = ''a.txt'', f_owner = 1, f_parent_directory = 2,
                            f_data = ''0123456789''\<rparr>],
                        RNG := [0, 7, 8]\<rparr>,
              \<lparr>f_id = 2, f_name = ''a.txt'', f_owner = 1, f_parent_directory = 2,
                f_data = ''0123456789''\<rparr>)"
    by (simp add: File_create_def) (simp add: full_db_def Let_def)
  have s: "\<not> length ''0123456789'' > LIMIT_SINGLE_FILE_SIZE"
    by (simp add: LIMIT_SINGLE_FILE_SIZE_def)
  have b: "request_body ''0123456789'' = return ''0123456789''"
    by (simp add: request_body_def DATA_UPLOAD_MAX_MEMORY_SIZE_def)
  have h: "FileView_handle_post scenario_env full_db (Some ''Bearer t2'') 2 ''a.txt'' 2 ''0123456789''
       = Some (STATUS_OK,
               full_db\<lparr>File_objects := File_objects full_db @
                          [\<lparr>f_id = 2, f_name = ''a.txt'', f_owner = 1, f_parent_directory = 2,
                            f_data = ''0123456789''\<rparr>],
                        RNG := [0, 7, 8]\<rparr>)"
    unfolding FileView_handle_post_def authenticated_unfold [OF scenario_authenticated(2) [OF u]]
    by (simp only: full_db_find scenario_find objects_get_def option.case bind_simps full_db_access
          full_db_names b s if_False full_db_quota scenario_fields c)
       (simp add: return_def)
  have t: "total_size
         (full_db\<lparr>File_objects := File_objects full_db @
                          [\<lparr>f_id = 2, f_name = ''a.txt'', f_owner = 1, f_parent_directory = 2,
                            f_data = ''0123456789''\<rparr>],
                        RNG := [0, 7, 8]\<rparr>) 1
       = LIMIT_USER_TOTAL_SIZE + 10"
    using full_db_total by (simp add: total_size_def)
  from full_db_total h t show ?thesis by blast
qed

lemma oversized_body_length [simp]: "length oversized_body = 134217729"
  by (simp add: oversized_body_def)

lemma scenario_file_access: "verify_can_access scenario_db 1 (Some (AFile a_txt)) True = return ()"
  by (rule verify_can_access_write) (simp add: File_can_access_def return_def)

lemma scenario_sub_names: "verify_unique_names scenario_db (Name ''b.txt'') sub = return ()"
  by (simp add: file_set_def directory_set_def scenario_db_def)
     (simp add: scenario_defs)

lemma request_body_oversized:
  "length body > LIMIT_SINGLE_FILE_SIZE \<Longrightarrow> request_body body = throw OtherException"
  by (simp add: request_body_def DATA_UPLOAD_MAX_MEMORY_SIZE_def LIMIT_SINGLE_FILE_SIZE_def)

text \<open>
  C3, on the code. The cap of the framework on a request body, \<open>DATA_UPLOAD_MAX_MEMORY_SIZE\<close>
  of settings.py, is the per-file cap \<open>LIMIT_SINGLE_FILE_SIZE\<close>. For an authenticated caller
  and a body above the cap, reading \<open>request.body\<close> raises: creating a file in a directory
  that the caller may write, under a free name, and writing the content of a file that the
  caller may write are both answered \<open>internal_error\<close>, not \<open>quota_exceeded\<close>, and nothing is
  stored; so is a \<open>PUT\<close> without \<open>writebody\<close>. The comparison with the per-file cap in
  \<open>FileView._handle_post\<close> is never reached with such a body, and \<open>FileView._handle_put\<close>
  has none.
\<close>

theorem oversized_content_internal_error:
  assumes "verify_authenticated e dbi a u = Some (Inr (db, user, tok))"
    and "length body > LIMIT_SINGLE_FILE_SIZE"
  shows "DATA_UPLOAD_MAX_MEMORY_SIZE = LIMIT_SINGLE_FILE_SIZE
     \<and> (Directory_find db did = Some d
          \<and> verify_can_access db u (Some (ADirectory d)) True = return ()
          \<and> verify_unique_names db (Name n) d = return () \<longrightarrow>
          FileView_handle_post e dbi a u n did body = Some (STAUTS_INTERNAL_ERROR, db))
     \<and> (File_find db fid = Some f
          \<and> verify_can_access db u (Some (AFile f)) True = return () \<longrightarrow>
          FileView_handle_put e dbi a u None None True fid body = Some (STAUTS_INTERNAL_ERROR, db))
     \<and> FileView_handle_put e dbi a u fname pdir False fid body = Some (STAUTS_INTERNAL_ERROR, db)
     \<and> STAUTS_INTERNAL_ERROR \<noteq> STATUS_QUOTA_EXCEEDED
     \<and> STAUTS_INTERNAL_ERROR \<noteq> STATUS_OK"
proof -
  note au = authenticated_unfold [OF assms(1)]
  note rb = request_body_oversized [OF assms(2)]
  have 1: "DATA_UPLOAD_MAX_MEMORY_SIZE = LIMIT_SINGLE_FILE_SIZE"
    by (simp add: DATA_UPLOAD_MAX_MEMORY_SIZE_def LIMIT_SINGLE_FILE_SIZE_def)
  have 2: "FileView_handle_post e dbi a u n did body = Some (STAUTS_INTERNAL_ERROR, db)"
    if "Directory_find db did = Some d" "verify_can_access db u (Some (ADirectory d)) True = return ()"
      "verify_unique_names db (Name n) d = return ()"
    unfolding FileView_handle_post_def au
    by (simp only: that objects_get_Some bind_simps rb) (simp add: throw_def)
  have 3: "FileView_handle_put e dbi a u None None True fid body = Some (STAUTS_INTERNAL_ERROR, db)"
    if "File_find db fid = Some f" "verify_can_access db u (Some (AFile f)) True = return ()"
    unfolding FileView_handle_put_def au
    by (simp only: that objects_get_Some bind_simps rb simp_thms if_True if_False) (simp add: throw_def)
  have 4: "FileView_handle_put e dbi a u fname pdir False fid body = Some (STAUTS_INTERNAL_ERROR, db)"
    unfolding FileView_handle_put_def au
    by (simp only: bind_simps rb simp_thms if_True if_False) (simp add: throw_def)
  have 5: "STAUTS_INTERNAL_ERROR \<noteq> STATUS_QUOTA_EXCEEDED" "STAUTS_INTERNAL_ERROR \<noteq> STATUS_OK"
    by (simp_all add: status_defs)
  from 1 2 3 4 5 show ?thesis
    by simp
qed

theorem oversized_content_internal_error_witness:
  "length oversized_body > LIMIT_SINGLE_FILE_SIZE
   \<and> FileView_handle_post scenario_env scenario_db (Some ''Bearer t1'') 1 ''b.txt'' 5 oversized_body
       = Some (STAUTS_INTERNAL_ERROR, scenario_db)
   \<and> FileView_handle_put scenario_env scenario_db (Some ''Bearer t1'') 1 None None True 6 oversized_body
       = Some (STAUTS_INTERNAL_ERROR, scenario_db)
   \<and> FileView_handle_put scenario_env scenario_db (Some ''Bearer t1'') 1 None None False 6 oversized_body
       = Some (STAUTS_INTERNAL_ERROR, scenario_db)"
proof -
  have s: "length oversized_body > LIMIT_SINGLE_FILE_SIZE"
    by (simp add: LIMIT_SINGLE_FILE_SIZE_def)
  show ?thesis
    using oversized_content_internal_error
      [OF scenario_authenticated(1) [OF scenario_find(5)] s,
        where did = 5 and d = sub and n = "''b.txt''" and fid = 6 and f = a_txt
          and fname = None and pdir = None]
      s scenario_owner_access scenario_sub_names scenario_file_access
    by simp
qed

end
